theory Spec2Isabelle
  imports Complex_Main "HOL-Library.Sublist"
begin

section \<open>Shared data\<close>

text \<open>
  JavaScript exceptions are values here. The source only ever throws the generic
  \<open>Error\<close> with a message; the other constructors are the kinds the specification
  names, so that a statement can say which kind a call can or cannot produce.
\<close>

datatype error =
    Error string
  | ValidationError string
  | IndexUnavailableError string
  | GenerationError string
  | TimeoutError string

fun message :: "error \<Rightarrow> string" where
  "message (Error m) = m"
| "message (ValidationError m) = m"
| "message (IndexUnavailableError m) = m"
| "message (GenerationError m) = m"
| "message (TimeoutError m) = m"

text \<open>The \<open>source\<close> tag of a chunk: \<open>'transcript' | 'description' | 'title' | 'comments'\<close>.\<close>

datatype source_kind = Transcript | Description | Title | Comments

text \<open>
  The metadata object attached to every document. \<open>processVideoContent\<close> fills the
  first eight fields, \<open>processComments\<close> fills \<open>likeCount\<close> and \<open>author\<close> instead
  of \<open>viewCount\<close> and \<open>uploadDate\<close>; \<open>timestamp\<close> is declared by the
  \<open>VideoChunk\<close> interface and read by \<open>processMessage\<close>. A field the object literal
  does not mention (or sets to \<open>undefined\<close>) is \<open>None\<close>.
\<close>

record metadata =
  videoId :: string
  channelId :: string
  videoTitle :: string
  channelName :: string
  url :: string
  viewCount :: "nat option"
  uploadDate :: "string option"
  source :: source_kind
  timestamp :: "string option"
  likeCount :: "nat option"
  author :: "string option"

text \<open>A langchain \<open>Document\<close>: the chunk text and its metadata.\<close>

record document =
  pageContent :: string
  doc_metadata :: metadata

section \<open>The conversation engine (\<open>ConversationalAI\<close>)\<close>

subsection \<open>Configuration and constructor\<close>

record ConversationalAIConfig =
  openaiApiKey :: string
  modelName :: "string option"
  temperature :: "rat option"
  maxTokens :: "rat option"

text \<open>The options object handed to \<open>new OpenAI({...})\<close>.\<close>

record OpenAI_options =
  opt_openAIApiKey :: string
  opt_modelName :: string
  opt_temperature :: rat
  opt_maxTokens :: rat

text \<open>
  JavaScript's \<open>a || b\<close> on an optional number and on an optional string: the left
  operand is returned unless it is falsy (\<open>undefined\<close>, \<open>0\<close>, the empty string).
  Numbers are exact rationals here; \<open>NaN\<close>, also falsy, is not represented.
\<close>

definition or_number :: "rat option \<Rightarrow> rat \<Rightarrow> rat" where
  "or_number a d = (case a of None \<Rightarrow> d | Some v \<Rightarrow> if v = 0 then d else v)"

definition or_string :: "string option \<Rightarrow> string \<Rightarrow> string" where
  "or_string a d = (case a of None \<Rightarrow> d | Some v \<Rightarrow> if v = [] then d else v)"

definition new_OpenAI :: "ConversationalAIConfig \<Rightarrow> OpenAI_options" where
  "new_OpenAI cfg =
     \<lparr> opt_openAIApiKey = openaiApiKey cfg,
       opt_modelName = or_string (modelName cfg) ''gpt-4'',
       opt_temperature = or_number (temperature cfg) (7 / 10),
       opt_maxTokens = or_number (maxTokens cfg) 1000 \<rparr>"

text \<open>One message of the \<open>BufferMemory\<close>.\<close>

datatype role = User | Assistant | System

record ChatMessage =
  msg_role :: role
  msg_content :: string

text \<open>
  The handle \<open>SupabaseVectorStore.fromExistingIndex\<close> returns: the table and the
  query function it was opened on.
\<close>

record SupabaseVectorStore =
  vs_tableName :: string
  vs_queryName :: string

text \<open>
  The \<open>VectorDatabase\<close> object: its table name and the handle, \<open>null\<close> until
  \<open>initialize\<close> has run.
\<close>

record VectorDatabase =
  tableName :: string
  vectorStore :: "SupabaseVectorStore option"

text \<open>The retrieval chain, built over the vector store's retriever.\<close>

datatype ConversationalRetrievalQAChain = Chain SupabaseVectorStore

record ConversationalAI =
  config :: ConversationalAIConfig
  vectorDb :: VectorDatabase
  model :: OpenAI_options
  qa_chain :: "ConversationalRetrievalQAChain option"
  memory :: "ChatMessage list"

definition new_ConversationalAI :: "ConversationalAIConfig \<Rightarrow> VectorDatabase \<Rightarrow> ConversationalAI" where
  "new_ConversationalAI cfg db =
     \<lparr> config = cfg, vectorDb = db, model = new_OpenAI cfg, qa_chain = None, memory = [] \<rparr>"

subsection \<open>The collaborators outside the repository\<close>

text \<open>
  The table \<open>youtube_embeddings\<close> of the deployment guide:
  \<open>id bigserial PRIMARY KEY, content text, metadata jsonb, embedding vector(1536)\<close>.
  The embedding column is not represented; what it is used for, the cosine distance to
  a query, is a parameter below. \<open>next_id\<close> is the sequence behind \<open>bigserial\<close>.
\<close>

record row =
  row_id :: nat
  row_content :: string
  row_metadata :: metadata

record supabase =
  rows :: "row list"
  next_id :: nat

text \<open>
  What the libraries and services answer is a parameter of the model:
  \<^item> \<open>fromExistingIndex\<close>: whether opening the Supabase index succeeds;
  \<^item> \<open>chain_call\<close>: what \<open>chain.call({question})\<close> does on a given history and
    question: it throws (question rewriting, embedding, retrieval or generation failed)
    or returns the answer text and, possibly, the source documents in retrieval order;
  \<^item> \<open>splitText\<close>: the pieces \<open>RecursiveCharacterTextSplitter\<close> cuts a string into;
  \<^item> \<open>add_error\<close>: the error, if any, with which the embedding provider or the
    table rejects a batch of documents handed to \<open>addDocuments\<close>;
  \<^item> \<open>query_error\<close>: the error, if any, with which embedding a query or calling
    the query function fails;
  \<^item> \<open>distance\<close>: the cosine distance \<open>embedding <=> query_embedding\<close> between a
    row and a query text, as an exact rational;
  \<^item> \<open>match_threshold\<close>: the threshold argument of \<open>match_documents\<close>.
\<close>

record chain_result =
  text_of :: string
  sourceDocuments :: "document list option"

record env =
  fromExistingIndex :: "error + unit"
  chain_call :: "ChatMessage list \<Rightarrow> string \<Rightarrow> error + chain_result"
  splitText :: "string \<Rightarrow> string list"
  add_error :: "document list \<Rightarrow> error option"
  query_error :: "string \<Rightarrow> error option"
  distance :: "string \<Rightarrow> row \<Rightarrow> rat"
  match_threshold :: rat

subsection \<open>\<open>initialize\<close>\<close>

text \<open>
  \<open>VectorDatabase.initialize\<close> opens the index and stores the handle; a failure of the
  library call propagates.
\<close>

definition vdb_initialize :: "env \<Rightarrow> VectorDatabase \<Rightarrow> error + VectorDatabase" where
  "vdb_initialize e db =
     (case fromExistingIndex e of
        Inl err \<Rightarrow> Inl err
      | Inr _ \<Rightarrow> Inr (db\<lparr>vectorStore :=
                 Some \<lparr>vs_tableName = tableName db, vs_queryName = ''match_documents''\<rparr>\<rparr>))"

text \<open>
  \<open>ConversationalAI.initialize\<close>: initialise the vector database, build the chain over
  its store; anything thrown is caught and rethrown as
  \<open>Error("Failed to initialize conversational AI: " + message)\<close>. A handle still
  \<open>null\<close> would make \<open>vectorStore.asRetriever()\<close> throw a \<open>TypeError\<close>, whose
  message is shortened here; after a successful \<open>vdb_initialize\<close> the handle is set.
\<close>

definition initialize :: "env \<Rightarrow> ConversationalAI \<Rightarrow> error + ConversationalAI" where
  "initialize e ai =
     (case vdb_initialize e (vectorDb ai) of
        Inl err \<Rightarrow> Inl (Error (''Failed to initialize conversational AI: '' @ message err))
      | Inr db \<Rightarrow>
          (case vectorStore db of
             None \<Rightarrow> Inl (Error (''Failed to initialize conversational AI: ''
                              @ ''Cannot read properties of null''))
           | Some vs \<Rightarrow> Inr (ai\<lparr>vectorDb := db, qa_chain := Some (Chain vs)\<rparr>)))"

subsection \<open>\<open>processMessage\<close>\<close>

text \<open>One entry of the returned \<open>sources\<close> array.\<close>

record source_entry =
  src_videoId :: string
  src_videoTitle :: string
  src_channelName :: string
  src_url :: string
  src_source :: source_kind
  src_timestamp :: "string option"

record answer =
  response :: string
  sources :: "source_entry list"

text \<open>The arrow function of \<open>result.sourceDocuments?.map(...)\<close>.\<close>

definition to_source :: "document \<Rightarrow> source_entry" where
  "to_source doc =
     \<lparr> src_videoId = videoId (doc_metadata doc),
       src_videoTitle = videoTitle (doc_metadata doc),
       src_channelName = channelName (doc_metadata doc),
       src_url = url (doc_metadata doc),
       src_source = source (doc_metadata doc),
       src_timestamp = timestamp (doc_metadata doc) \<rparr>"

text \<open>\<open>result.sourceDocuments?.map(doc => ({...})) || []\<close>\<close>

definition extract_sources :: "chain_result \<Rightarrow> source_entry list" where
  "extract_sources result =
     (case sourceDocuments result of None \<Rightarrow> [] | Some docs \<Rightarrow> map to_source docs)"

text \<open>
  A JavaScript \<open>Map\<close> as an association list in insertion order. \<open>set\<close> on a key
  that is present replaces the value and leaves the entry where it is; on a new key it
  appends. \<open>new Map(entries)\<close> sets the entries from left to right; \<open>values()\<close>
  lists the values in insertion order.
\<close>

fun Map_set :: "('k \<times> 'v) list \<Rightarrow> 'k \<Rightarrow> 'v \<Rightarrow> ('k \<times> 'v) list" where
  "Map_set [] k v = [(k, v)]"
| "Map_set ((k', v') # m) k v =
     (if k' = k then (k', v) # m else (k', v') # Map_set m k v)"

definition new_Map :: "('k \<times> 'v) list \<Rightarrow> ('k \<times> 'v) list" where
  "new_Map entries = foldl (\<lambda>m (k, v). Map_set m k v) [] entries"

definition Map_values :: "('k \<times> 'v) list \<Rightarrow> 'v list" where
  "Map_values m = map snd m"

text \<open>\<open>Array.from(new Map(sources.map(item => [item.videoId, item])).values())\<close>\<close>

definition uniqueSources :: "source_entry list \<Rightarrow> source_entry list" where
  "uniqueSources srcs = Map_values (new_Map (map (\<lambda>item. (src_videoId item, item)) srcs))"

definition apology :: string where
  "apology = ''I encountered an error while processing your message. Please try again.''"

text \<open>
  What the library's \<open>chain.call\<close> does to the \<open>BufferMemory\<close> it was built with: after
  a successful call it saves the question as a user message and the answer text as an
  assistant message; a call that throws saves nothing.
\<close>

definition saveContext :: "ChatMessage list \<Rightarrow> string \<Rightarrow> string \<Rightarrow> ChatMessage list" where
  "saveContext mem question answer_text =
     mem @ [\<lparr>msg_role = User, msg_content = question\<rparr>,
            \<lparr>msg_role = Assistant, msg_content = answer_text\<rparr>]"

text \<open>
  \<open>processMessage\<close>. The lazy \<open>initialize\<close> stands before the \<open>try\<close>: what it throws
  leaves the function (\<open>Inl\<close>). Inside the \<open>try\<close>, a throwing chain call is turned
  into the apology with no sources. The engine after the call is returned with the
  result.
\<close>

definition processMessage ::
  "env \<Rightarrow> ConversationalAI \<Rightarrow> string \<Rightarrow> ConversationalAI \<times> (error + answer)" where
  "processMessage e ai msg =
     (case (if qa_chain ai = None then initialize e ai else Inr ai) of
        Inl err \<Rightarrow> (ai, Inl err)
      | Inr ai1 \<Rightarrow>
          (case chain_call e (memory ai1) msg of
             Inl err \<Rightarrow> (ai1, Inr \<lparr>response = apology, sources = []\<rparr>)
           | Inr result \<Rightarrow>
               (let srcs = extract_sources result
                in (ai1\<lparr>memory := saveContext (memory ai1) msg (text_of result)\<rparr>,
                    Inr \<lparr>response = text_of result, sources = uniqueSources srcs\<rparr>))))"

text \<open>The keys of an association list in the order of their first occurrence.\<close>

definition first_occurrences :: "'a list \<Rightarrow> 'a list" where
  "first_occurrences ks = rev (remdups (rev ks))"

text \<open>The last entry written under a key.\<close>

definition last_write :: "('k \<times> 'v) list \<Rightarrow> 'k \<Rightarrow> 'k \<times> 'v" where
  "last_write es k = last (filter (\<lambda>e. fst e = k) es)"

section \<open>The vector database (\<open>VectorDatabase\<close>)\<close>

subsection \<open>The library calls\<close>

text \<open>
  \<open>textSplitter.createDocuments([text], [metadata])\<close>: one document per piece of the
  text, each carrying the metadata object. (The line range the library adds to the
  metadata is not represented.)
\<close>

definition createDocuments :: "env \<Rightarrow> string \<Rightarrow> metadata \<Rightarrow> document list" where
  "createDocuments e txt md = map (\<lambda>piece. \<lparr>pageContent = piece, doc_metadata = md\<rparr>) (splitText e txt)"

text \<open>
  \<open>vectorStore.addDocuments(docs)\<close>: the documents are embedded and written with
  \<open>upsert\<close>, as rows without an \<open>id\<close>: the source passes no ids, so every row
  takes the next value of the sequence and is inserted. A batch the provider or the
  table rejects throws and writes nothing. The result is the table afterwards and the
  error thrown, if any.
\<close>

definition fresh_rows :: "nat \<Rightarrow> document list \<Rightarrow> row list" where
  "fresh_rows n docs =
     map (\<lambda>(i, d). \<lparr>row_id = i, row_content = pageContent d, row_metadata = doc_metadata d\<rparr>)
       (zip [n ..< n + length docs] docs)"

definition addDocuments :: "env \<Rightarrow> supabase \<Rightarrow> document list \<Rightarrow> supabase \<times> error option" where
  "addDocuments e tbl docs =
     (case add_error e docs of
        Some err \<Rightarrow> (tbl, Some err)
      | None \<Rightarrow> (\<lparr>rows = rows tbl @ fresh_rows (next_id tbl) docs,
                  next_id = next_id tbl + length docs\<rparr>, None))"

text \<open>The document a stored row is read back as.\<close>

definition row_document :: "row \<Rightarrow> document" where
  "row_document r = \<lparr>pageContent = row_content r, doc_metadata = row_metadata r\<rparr>"

text \<open>
  Sequencing of awaited calls: the next call runs on the table the previous one left,
  unless the previous one threw; then the error leaves the function and the table stays
  as the throwing call left it.
\<close>

definition and_then ::
  "supabase \<times> error option \<Rightarrow> (supabase \<Rightarrow> supabase \<times> error option) \<Rightarrow> supabase \<times> error option" where
  "and_then r f = (case r of (tbl, None) \<Rightarrow> f tbl | (tbl, Some err) \<Rightarrow> (tbl, Some err))"

subsection \<open>\<open>processVideoContent\<close>\<close>

text \<open>The \<open>metadata\<close> argument of \<open>processVideoContent\<close>.\<close>

record video_meta =
  vm_channelName :: string
  vm_url :: string
  vm_viewCount :: "nat option"
  vm_uploadDate :: "string option"

text \<open>The metadata object literal written three times in \<open>processVideoContent\<close>.\<close>

definition chunk_metadata :: "string \<Rightarrow> string \<Rightarrow> string \<Rightarrow> video_meta \<Rightarrow> source_kind \<Rightarrow> metadata" where
  "chunk_metadata vid cid title md kind =
     \<lparr> videoId = vid, channelId = cid, videoTitle = title,
       channelName = vm_channelName md, url = vm_url md,
       viewCount = vm_viewCount md, uploadDate = vm_uploadDate md,
       source = kind, timestamp = None, likeCount = None, author = None \<rparr>"

text \<open>\<open>if (this.vectorStore) { await this.vectorStore.addDocuments(chunks); }\<close>\<close>

definition add_if_initialized ::
  "env \<Rightarrow> VectorDatabase \<Rightarrow> supabase \<Rightarrow> document list \<Rightarrow> supabase \<times> error option" where
  "add_if_initialized e db tbl docs =
     (if vectorStore db \<noteq> None then addDocuments e tbl docs else (tbl, None))"

text \<open>
  \<open>processVideoContent\<close>: the transcript and the description are processed when
  they are non-empty strings; the title always goes through the splitter and is stored
  when the store is initialised and the splitter returned at least one document. No
  argument is validated.
\<close>

definition processVideoContent ::
  "env \<Rightarrow> VectorDatabase \<Rightarrow> supabase \<Rightarrow> string \<Rightarrow> string \<Rightarrow> string \<Rightarrow> string \<Rightarrow> string
     \<Rightarrow> video_meta \<Rightarrow> supabase \<times> error option" where
  "processVideoContent e db tbl vid cid title transcript description md =
     and_then
       (if transcript \<noteq> []
        then add_if_initialized e db tbl
               (createDocuments e transcript (chunk_metadata vid cid title md Transcript))
        else (tbl, None))
       (\<lambda>tbl1.
          and_then
            (if description \<noteq> []
             then add_if_initialized e db tbl1
                    (createDocuments e description (chunk_metadata vid cid title md Description))
             else (tbl1, None))
            (\<lambda>tbl2.
               (let titleDoc = createDocuments e title (chunk_metadata vid cid title md Title)
                in if vectorStore db \<noteq> None \<and> length titleDoc > 0
                   then addDocuments e tbl2 titleDoc
                   else (tbl2, None))))"

text \<open>
  For stating what a call stores: the documents the table holds, in row order, and the
  documents one call of \<open>processVideoContent\<close> creates, in the order it hands them to
  the store.
\<close>

definition stored_documents :: "supabase \<Rightarrow> document list" where
  "stored_documents tbl = map row_document (rows tbl)"

definition video_documents ::
  "env \<Rightarrow> string \<Rightarrow> string \<Rightarrow> string \<Rightarrow> string \<Rightarrow> string \<Rightarrow> video_meta \<Rightarrow> document list" where
  "video_documents e vid cid title transcript description md =
     (if transcript \<noteq> []
      then createDocuments e transcript (chunk_metadata vid cid title md Transcript) else [])
     @ (if description \<noteq> []
        then createDocuments e description (chunk_metadata vid cid title md Description) else [])
     @ createDocuments e title (chunk_metadata vid cid title md Title)"

subsection \<open>\<open>processComments\<close>\<close>

record comment =
  c_author :: string
  c_content :: string
  c_likeCount :: "nat option"

record comment_meta =
  cm_channelName :: string
  cm_url :: string

definition comment_metadata :: "string \<Rightarrow> string \<Rightarrow> string \<Rightarrow> comment_meta \<Rightarrow> comment \<Rightarrow> metadata" where
  "comment_metadata vid cid title md c =
     \<lparr> videoId = vid, channelId = cid, videoTitle = title,
       channelName = cm_channelName md, url = cm_url md,
       viewCount = None, uploadDate = None,
       source = Comments, timestamp = None,
       likeCount = c_likeCount c, author = Some (c_author c) \<rparr>"

text \<open>The template literal \<open>`${comment.author}: ${comment.content}`\<close>.\<close>

definition commentText :: "comment \<Rightarrow> string" where
  "commentText c = c_author c @ '': '' @ c_content c"

text \<open>The documents the loop body creates for one comment.\<close>

definition comment_documents ::
  "env \<Rightarrow> string \<Rightarrow> string \<Rightarrow> string \<Rightarrow> comment_meta \<Rightarrow> comment \<Rightarrow> document list" where
  "comment_documents e vid cid title md c =
     createDocuments e (commentText c) (comment_metadata vid cid title md c)"

text \<open>The \<open>for (const comment of comments)\<close> loop, with its \<open>continue\<close>.\<close>

fun comments_loop ::
  "env \<Rightarrow> VectorDatabase \<Rightarrow> string \<Rightarrow> string \<Rightarrow> string \<Rightarrow> comment_meta \<Rightarrow> supabase \<Rightarrow> comment list
     \<Rightarrow> supabase \<times> error option" where
  "comments_loop e db vid cid title md tbl [] = (tbl, None)"
| "comments_loop e db vid cid title md tbl (c # cs) =
     (if c_content c = [] then comments_loop e db vid cid title md tbl cs
      else and_then
             (add_if_initialized e db tbl (comment_documents e vid cid title md c))
             (\<lambda>tbl1. comments_loop e db vid cid title md tbl1 cs))"

definition processComments ::
  "env \<Rightarrow> VectorDatabase \<Rightarrow> supabase \<Rightarrow> string \<Rightarrow> string \<Rightarrow> string \<Rightarrow> comment list
     \<Rightarrow> comment_meta \<Rightarrow> supabase \<times> error option" where
  "processComments e db tbl vid cid title comments md =
     (if length comments = 0 then (tbl, None)
      else comments_loop e db vid cid title md tbl comments)"

subsection \<open>The batches a call hands to the store\<close>

text \<open>
  For stating what a call does on an initialised store: the batches it hands to
  \<open>addDocuments\<close>, in order. \<open>processVideoContent\<close> hands over the documents of the
  transcript when the transcript is a non-empty string, those of the description when the
  description is one, and those of the title when there is at least one;
  \<open>processComments\<close> hands over the documents of every comment with non-empty content.
\<close>

definition video_batches ::
  "env \<Rightarrow> string \<Rightarrow> string \<Rightarrow> string \<Rightarrow> string \<Rightarrow> string \<Rightarrow> video_meta \<Rightarrow> document list list" where
  "video_batches e vid cid title transcript description md =
     (if transcript \<noteq> []
      then [createDocuments e transcript (chunk_metadata vid cid title md Transcript)] else [])
     @ (if description \<noteq> []
        then [createDocuments e description (chunk_metadata vid cid title md Description)] else [])
     @ (if length (createDocuments e title (chunk_metadata vid cid title md Title)) > 0
        then [createDocuments e title (chunk_metadata vid cid title md Title)] else [])"

definition comment_batches ::
  "env \<Rightarrow> string \<Rightarrow> string \<Rightarrow> string \<Rightarrow> comment_meta \<Rightarrow> comment list \<Rightarrow> document list list" where
  "comment_batches e vid cid title md comments =
     map (comment_documents e vid cid title md) (filter (\<lambda>c. c_content c \<noteq> []) comments)"

text \<open>
  Of a list of batches: those before the first one the store rejects, and the error
  with which it rejects that one (\<open>None\<close> when it accepts them all).
\<close>

definition accepted_batches :: "env \<Rightarrow> document list list \<Rightarrow> document list list" where
  "accepted_batches e batches = takeWhile (\<lambda>b. add_error e b = None) batches"

definition first_rejection :: "env \<Rightarrow> document list list \<Rightarrow> error option" where
  "first_rejection e batches =
     (case dropWhile (\<lambda>b. add_error e b = None) batches of
        [] \<Rightarrow> None
      | b # bs \<Rightarrow> add_error e b)"

text \<open>Handing a list of batches to the store one after the other.\<close>

fun add_batches :: "env \<Rightarrow> supabase \<Rightarrow> document list list \<Rightarrow> supabase \<times> error option" where
  "add_batches e tbl [] = (tbl, None)"
| "add_batches e tbl (b # bs) = and_then (addDocuments e tbl b) (\<lambda>tbl1. add_batches e tbl1 bs)"

subsection \<open>\<open>similaritySearch\<close>\<close>

text \<open>
  The SQL function \<open>match_documents\<close> of the deployment guide:
  \<open>SELECT ... WHERE 1 - (embedding <=> query_embedding) > match_threshold
     ORDER BY embedding <=> query_embedding LIMIT match_count\<close>.
  The order among rows at the same distance, which SQL leaves open, is the table's.
\<close>

definition similarity :: "env \<Rightarrow> string \<Rightarrow> row \<Rightarrow> rat" where
  "similarity e q r = 1 - distance e q r"

definition match_documents :: "env \<Rightarrow> supabase \<Rightarrow> string \<Rightarrow> nat \<Rightarrow> row list" where
  "match_documents e tbl q match_count =
     take match_count
       (sort_key (distance e q)
          (filter (\<lambda>r. similarity e q r > match_threshold e) (rows tbl)))"

text \<open>
  \<open>similaritySearch(query, k = 5)\<close>: initialise the store when the handle is
  \<open>null\<close> (what that throws leaves the function), then query through the handle;
  without a handle the answer is the empty array.
\<close>

definition similaritySearch ::
  "env \<Rightarrow> VectorDatabase \<Rightarrow> supabase \<Rightarrow> string \<Rightarrow> nat option
     \<Rightarrow> VectorDatabase \<times> (error + document list)" where
  "similaritySearch e db tbl q k =
     (case (if vectorStore db = None then vdb_initialize e db else Inr db) of
        Inl err \<Rightarrow> (db, Inl err)
      | Inr db1 \<Rightarrow>
          (if vectorStore db1 \<noteq> None
           then (case query_error e q of
                   Some err \<Rightarrow> (db1, Inl err)
                 | None \<Rightarrow>
                     (db1, Inr (map row_document
                                 (match_documents e tbl q (case k of None \<Rightarrow> 5 | Some n \<Rightarrow> n)))))
           else (db1, Inr [])))"

section \<open>The chat route: citations with timestamps\<close>

subsection \<open>Strings and numbers of JavaScript\<close>

text \<open>
  The decimal digits (\<open>\\d\<close> of a regular expression without the unicode flag) and
  the number a digit string denotes.
\<close>

definition digit_of :: "char \<Rightarrow> nat option" where
  "digit_of =
     map_of [(CHR ''0'', 0), (CHR ''1'', 1), (CHR ''2'', 2), (CHR ''3'', 3), (CHR ''4'', 4),
             (CHR ''5'', 5), (CHR ''6'', 6), (CHR ''7'', 7), (CHR ''8'', 8), (CHR ''9'', 9)]"

definition is_digit :: "char \<Rightarrow> bool" where
  "is_digit c = (digit_of c \<noteq> None)"

definition decimal :: "string \<Rightarrow> nat" where
  "decimal ds = foldl (\<lambda>acc c. 10 * acc + (case digit_of c of Some d \<Rightarrow> d | None \<Rightarrow> 0)) 0 ds"

text \<open>
  \<open>parseFloat\<close> on the strings the regular expression captures: digits, possibly
  followed by a point and more digits. The value is the exact decimal. JavaScript
  rounds it to a double; for a whole part below \<open>2^31\<close> and at most six digits after
  the point, the floors taken below are those of the exact value.
\<close>

definition parseFloat :: "string \<Rightarrow> rat" where
  "parseFloat s =
     (let ds = takeWhile is_digit s; r = dropWhile is_digit s
      in of_nat (decimal ds)
         + (case r of
              [] \<Rightarrow> 0
            | c # fs' \<Rightarrow>
                if c = CHR ''.''
                then (let fs = takeWhile is_digit fs' in of_nat (decimal fs) / 10 ^ length fs)
                else 0))"

text \<open>\<open>a % b\<close> for \<open>a \<ge> 0\<close> and \<open>b > 0\<close>.\<close>

definition js_rem :: "rat \<Rightarrow> rat \<Rightarrow> rat" where
  "js_rem a b = a - b * of_int \<lfloor>a / b\<rfloor>"

text \<open>The decimal numeral of a natural number, and \<open>toString\<close> of an integral number.\<close>

function show_nat :: "nat \<Rightarrow> string" where
  "show_nat n =
     (if n < 10 then [''0123456789'' ! n]
      else show_nat (n div 10) @ [''0123456789'' ! (n mod 10)])"
  by pat_completeness auto
termination
  by (relation "measure id") auto

declare show_nat.simps [simp del]

definition toString :: "int \<Rightarrow> string" where
  "toString i = (if i < 0 then CHR ''-'' # show_nat (nat (- i)) else show_nat (nat i))"

definition padStart :: "string \<Rightarrow> nat \<Rightarrow> char \<Rightarrow> string" where
  "padStart s n c = replicate (n - length s) c @ s"

text \<open>\<open>s.includes(sub)\<close>\<close>

fun str_includes :: "string \<Rightarrow> string \<Rightarrow> bool" where
  "str_includes [] sub = (sub = [])"
| "str_includes (c # cs) sub = (prefix sub (c # cs) \<or> str_includes cs sub)"

subsection \<open>The regular expression\<close>

text \<open>
  \<open>/\\[(\\d+(?:\\.\\d+)?)s\\]/\<close> tried at the start of a string; the result is the text of
  the capture group. After the greedy digits the next character must be \<open>s\<close> or a
  point, so no shorter run of digits can lead to a match and the greedy choice is the
  only one.
\<close>

definition match_here :: "string \<Rightarrow> string option" where
  "match_here s =
     (case s of
        [] \<Rightarrow> None
      | c # r \<Rightarrow>
          if c \<noteq> CHR ''['' then None
          else (let ds = takeWhile is_digit r; r1 = dropWhile is_digit r
                in if ds = [] then None
                   else if prefix ''s]'' r1 then Some ds
                   else (case r1 of
                           [] \<Rightarrow> None
                         | c1 # r2 \<Rightarrow>
                             if c1 \<noteq> CHR ''.'' then None
                             else (let fs = takeWhile is_digit r2; r3 = dropWhile is_digit r2
                                   in if fs \<noteq> [] \<and> prefix ''s]'' r3
                                      then Some (ds @ ''.'' @ fs) else None))))"

text \<open>\<open>str.match(re)[1]\<close>: the leftmost position at which the expression matches.\<close>

fun regex_match :: "string \<Rightarrow> string option" where
  "regex_match [] = None"
| "regex_match (c # cs) =
     (case match_here (c # cs) of Some m \<Rightarrow> Some m | None \<Rightarrow> regex_match cs)"

subsection \<open>The metadata store and the loop over the sources\<close>

text \<open>A row of the \<open>videos\<close> table, as \<open>storeVideo\<close> binds it.\<close>

record Video =
  video_id :: string
  v_channel_id :: string
  v_title :: string
  v_url :: string
  v_upload_date :: "string option"
  v_duration :: nat
  v_view_count :: nat
  v_like_count :: nat
  v_description :: string
  v_thumbnail_url :: string
  v_tags :: string

text \<open>
  The body of \<open>for (const source of result.sources)\<close> in the chat route, with
  \<open>db.getVideo\<close> as a lookup in the \<open>videos\<close> table.
\<close>

definition enhance_source :: "(string \<rightharpoonup> Video) \<Rightarrow> source_entry \<Rightarrow> source_entry" where
  "enhance_source lookupVideo src =
     (if src_videoId src = [] then src
      else (case lookupVideo (src_videoId src) of
              None \<Rightarrow> src
            | Some videoDetails \<Rightarrow>
                (let src1 = src\<lparr>src_url := v_url videoDetails\<rparr>
                 in (case src_timestamp src1 of
                       None \<Rightarrow> src1
                     | Some ts \<Rightarrow>
                         if ts = [] then src1
                         else (case regex_match ts of
                                 None \<Rightarrow> src1
                               | Some m \<Rightarrow>
                                   (let seconds = parseFloat m;
                                        minutes = \<lfloor>seconds / 60\<rfloor>;
                                        remainingSeconds = \<lfloor>js_rem seconds 60\<rfloor>;
                                        src2 = src1\<lparr>src_timestamp :=
                                                 Some (toString minutes @ '':''
                                                       @ padStart (toString remainingSeconds) 2 (CHR ''0''))\<rparr>
                                    in if \<not> str_includes (src_url src2) ''&t=''
                                       then src2\<lparr>src_url := src_url src2 @ ''&t='' @ toString \<lfloor>seconds\<rfloor>\<rparr>
                                       else src2))))))"

definition enhance_sources :: "(string \<rightharpoonup> Video) \<Rightarrow> source_entry list \<Rightarrow> source_entry list" where
  "enhance_sources lookupVideo srcs =
     (if length srcs > 0 then map (enhance_source lookupVideo) srcs else srcs)"

section \<open>Channel ingestion\<close>

subsection \<open>The scraper's batches\<close>

record VideoInfo =
  vi_videoId :: string
  vi_title :: string
  vi_url :: string
  vi_channelId :: string
  vi_uploadDate :: "string option"
  vi_duration :: "nat option"
  vi_viewCount :: "nat option"
  vi_likeCount :: "nat option"
  vi_description :: "string option"
  vi_thumbnailUrl :: "string option"
  vi_tags :: "string list option"

record ChannelInfo =
  ci_channelId :: string
  ci_channelName :: string
  ci_channelUrl :: string
  ci_subscriberCount :: "nat option"
  ci_videoCount :: "nat option"
  ci_description :: "string option"
  ci_thumbnailUrl :: "string option"

text \<open>
  What the site and the D1 service answer:
  \<^item> \<open>scrapeChannel\<close>, \<open>scrapeVideoLinks\<close>, \<open>scrapeVideo\<close>: what fetching and
    reading the pages gives, or the error thrown;
  \<^item> \<open>d1_error\<close>: the error, if any, with which D1 rejects the statements bound to a
    key (a channel id or a video id).
\<close>

record web =
  scrapeChannel :: "string \<Rightarrow> error + ChannelInfo"
  scrapeVideoLinks :: "string \<Rightarrow> nat \<Rightarrow> error + string list"
  scrapeVideo :: "string \<Rightarrow> error + VideoInfo"
  d1_error :: "string \<Rightarrow> error option"

text \<open>
  \<open>processVideoBatch\<close>: every URL is scraped inside its own \<open>try\<close>; a failure is
  logged with \<open>console.error\<close> and the loop continues with the next video. The
  result is the videos scraped and the lines logged.
\<close>

fun processVideoBatch :: "web \<Rightarrow> string list \<Rightarrow> VideoInfo list \<times> string list" where
  "processVideoBatch w [] = ([], [])"
| "processVideoBatch w (u # us) =
     (case scrapeVideo w u of
        Inr videoInfo \<Rightarrow>
          (videoInfo # fst (processVideoBatch w us), snd (processVideoBatch w us))
      | Inl err \<Rightarrow>
          (fst (processVideoBatch w us),
           (''Error processing video '' @ u @ '':'') # snd (processVideoBatch w us)))"

text \<open>
  The loop \<open>for (let i = 0; i < videoLinks.length; i += batchSize)\<close> of
  \<open>scrapeChannelWithVideos\<close>, with \<open>batchSize = 5\<close>.
\<close>

definition batchSize :: nat where
  "batchSize = 5"

function batch_loop ::
  "web \<Rightarrow> string list \<Rightarrow> nat \<Rightarrow> VideoInfo list \<times> string list \<Rightarrow> VideoInfo list \<times> string list" where
  "batch_loop w videoLinks i acc =
     (if i < length videoLinks
      then (let batch = take batchSize (drop i videoLinks);
                batchResults = processVideoBatch w batch
            in batch_loop w videoLinks (i + batchSize)
                 (fst acc @ fst batchResults, snd acc @ snd batchResults))
      else acc)"
  by pat_completeness auto
termination
  by (relation "measure (\<lambda>(w, videoLinks, i, acc). length videoLinks - i)")
     (auto simp: batchSize_def)

declare batch_loop.simps [simp del]

definition scrapeChannelWithVideos ::
  "web \<Rightarrow> string \<Rightarrow> nat \<Rightarrow> error + (ChannelInfo \<times> VideoInfo list \<times> string list)" where
  "scrapeChannelWithVideos w channelUrl maxVideos =
     (case scrapeChannel w channelUrl of
        Inl err \<Rightarrow> Inl err
      | Inr channelInfo \<Rightarrow>
          (case scrapeVideoLinks w channelUrl maxVideos of
             Inl err \<Rightarrow> Inl err
           | Inr videoLinks \<Rightarrow>
               (let r = batch_loop w videoLinks 0 ([], [])
                in Inr (channelInfo, fst r, snd r))))"

subsection \<open>The metadata store (\<open>YouTubeDatabase\<close>)\<close>

record Channel =
  channel_id :: string
  channel_name :: string
  channel_url :: string
  subscriber_count :: nat
  video_count :: nat
  ch_description :: string
  ch_thumbnail_url :: string

record Transcript =
  t_video_id :: string
  t_language :: "string option"
  t_content :: string

record d1 =
  channels :: "Channel list"
  videos :: "Video list"
  transcripts :: "Transcript list"

text \<open>\<open>SELECT * FROM t WHERE key = ?\<close>, first result or \<open>null\<close>.\<close>

definition getChannel :: "d1 \<Rightarrow> string \<Rightarrow> Channel option" where
  "getChannel d k = find (\<lambda>c. channel_id c = k) (channels d)"

definition getVideo :: "d1 \<Rightarrow> string \<Rightarrow> Video option" where
  "getVideo d k = find (\<lambda>v. video_id v = k) (videos d)"

definition getTranscript :: "d1 \<Rightarrow> string \<Rightarrow> Transcript option" where
  "getTranscript d k = find (\<lambda>t. t_video_id t = k) (transcripts d)"

text \<open>
  The \<open>store\<close> functions: \<open>UPDATE\<close> every column of the rows with the key when one
  exists, \<open>INSERT\<close> otherwise. A statement D1 rejects throws and changes nothing.
\<close>

definition storeChannel :: "web \<Rightarrow> d1 \<Rightarrow> Channel \<Rightarrow> d1 \<times> error option" where
  "storeChannel w d c =
     (case d1_error w (channel_id c) of
        Some err \<Rightarrow> (d, Some err)
      | None \<Rightarrow>
          (if getChannel d (channel_id c) \<noteq> None
           then (d\<lparr>channels := map (\<lambda>x. if channel_id x = channel_id c then c else x) (channels d)\<rparr>, None)
           else (d\<lparr>channels := channels d @ [c]\<rparr>, None)))"

definition storeVideo :: "web \<Rightarrow> d1 \<Rightarrow> Video \<Rightarrow> d1 \<times> error option" where
  "storeVideo w d v =
     (case d1_error w (video_id v) of
        Some err \<Rightarrow> (d, Some err)
      | None \<Rightarrow>
          (if getVideo d (video_id v) \<noteq> None
           then (d\<lparr>videos := map (\<lambda>x. if video_id x = video_id v then v else x) (videos d)\<rparr>, None)
           else (d\<lparr>videos := videos d @ [v]\<rparr>, None)))"

definition storeTranscript :: "web \<Rightarrow> d1 \<Rightarrow> Transcript \<Rightarrow> d1 \<times> error option" where
  "storeTranscript w d t =
     (case d1_error w (t_video_id t) of
        Some err \<Rightarrow> (d, Some err)
      | None \<Rightarrow>
          (if getTranscript d (t_video_id t) \<noteq> None
           then (d\<lparr>transcripts :=
                    map (\<lambda>x. if t_video_id x = t_video_id t
                              then x\<lparr>t_language := t_language t, t_content := t_content t\<rparr>
                              else x) (transcripts d)\<rparr>, None)
           else (d\<lparr>transcripts := transcripts d @ [t]\<rparr>, None)))"

text \<open>The defaults \<open>x || 0\<close>, \<open>x || ''\<close> and \<open>x || null\<close> of the bound values.\<close>

definition or_zero :: "nat option \<Rightarrow> nat" where
  "or_zero a = (case a of None \<Rightarrow> 0 | Some n \<Rightarrow> n)"

definition or_empty :: "string option \<Rightarrow> string" where
  "or_empty a = (case a of None \<Rightarrow> [] | Some s \<Rightarrow> s)"

definition or_null :: "string option \<Rightarrow> string option" where
  "or_null a = (case a of None \<Rightarrow> None | Some s \<Rightarrow> if s = [] then None else Some s)"

text \<open>\<open>xs.join(sep)\<close>\<close>

fun join :: "string \<Rightarrow> string list \<Rightarrow> string" where
  "join sep [] = []"
| "join sep [x] = x"
| "join sep (x # y # ys) = x @ sep @ join sep (y # ys)"

text \<open>The rows the route hands to \<open>storeChannel\<close> and \<open>storeVideo\<close>, as they are bound.\<close>

definition channel_row :: "ChannelInfo \<Rightarrow> Channel" where
  "channel_row channel =
     \<lparr> channel_id = ci_channelId channel, channel_name = ci_channelName channel,
       channel_url = ci_channelUrl channel,
       subscriber_count = or_zero (ci_subscriberCount channel),
       video_count = or_zero (ci_videoCount channel),
       ch_description = or_empty (ci_description channel),
       ch_thumbnail_url = or_empty (ci_thumbnailUrl channel) \<rparr>"

definition video_row :: "ChannelInfo \<Rightarrow> VideoInfo \<Rightarrow> Video" where
  "video_row channel video =
     \<lparr> video_id = vi_videoId video, v_channel_id = ci_channelId channel,
       v_title = vi_title video, v_url = vi_url video,
       v_upload_date = or_null (vi_uploadDate video),
       v_duration = or_zero (vi_duration video),
       v_view_count = or_zero (vi_viewCount video),
       v_like_count = or_zero (vi_likeCount video),
       v_description = or_empty (vi_description video),
       v_thumbnail_url = or_empty (vi_thumbnailUrl video),
       v_tags = (case vi_tags video of None \<Rightarrow> [] | Some ts \<Rightarrow> join '', '' ts) \<rparr>"

subsection \<open>The transcript\<close>

record TranscriptSegment =
  seg_start :: nat
  seg_duration :: nat
  seg_text :: string

record TranscriptInfo =
  ti_videoId :: string
  ti_language :: "string option"
  ti_segments :: "TranscriptSegment list"

text \<open>\<open>fetchTranscript\<close> returns the same placeholder for every video.\<close>

definition fetchTranscript :: "string \<Rightarrow> TranscriptInfo option" where
  "fetchTranscript vid =
     Some \<lparr> ti_videoId = vid, ti_language = Some ''en'',
            ti_segments =
              [\<lparr>seg_start = 0, seg_duration = 5, seg_text = ''This is a placeholder transcript.''\<rparr>,
               \<lparr>seg_start = 5, seg_duration = 5,
                seg_text = ''In a real implementation, you would need to use the YouTube API or a specialized library.''\<rparr>] \<rparr>"

text \<open>\<open>transcript.segments.map(s => `[${s.start}s] ${s.text}`).join('\\n')\<close>\<close>

definition transcript_content :: "TranscriptInfo \<Rightarrow> string" where
  "transcript_content t =
     join [CHR 0x0A] (map (\<lambda>s. ''['' @ show_nat (seg_start s) @ ''s] '' @ seg_text s) (ti_segments t))"

subsection \<open>The process-channel route\<close>

text \<open>What the route changes: the metadata store and the embeddings table.\<close>

record stores =
  st_d1 :: d1
  st_table :: supabase

text \<open>
  The body of \<open>for (const video of videos)\<close>: store the video, fetch the transcript
  and, when there is one, store it and hand the content to the vector database. Every
  call is awaited in sequence with no \<open>try\<close> of its own: the first that throws leaves
  the body, and the loop.
\<close>

definition ingest_video ::
  "web \<Rightarrow> env \<Rightarrow> VectorDatabase \<Rightarrow> ChannelInfo \<Rightarrow> stores \<Rightarrow> VideoInfo \<Rightarrow> stores \<times> error option" where
  "ingest_video w e vdb channel st video =
     (case storeVideo w (st_d1 st) (video_row channel video) of
        (d, Some err) \<Rightarrow> (st\<lparr>st_d1 := d\<rparr>, Some err)
      | (d, None) \<Rightarrow>
          (case fetchTranscript (vi_videoId video) of
             None \<Rightarrow> (st\<lparr>st_d1 := d\<rparr>, None)
           | Some transcript \<Rightarrow>
               (case storeTranscript w d
                       \<lparr>t_video_id = vi_videoId video, t_language = or_null (ti_language transcript),
                        t_content = transcript_content transcript\<rparr> of
                  (d1, Some err) \<Rightarrow> (st\<lparr>st_d1 := d1\<rparr>, Some err)
                | (d1, None) \<Rightarrow>
                    (case processVideoContent e vdb (st_table st)
                            (vi_videoId video) (ci_channelId channel) (vi_title video)
                            (transcript_content transcript) (or_empty (vi_description video))
                            \<lparr>vm_channelName = ci_channelName channel, vm_url = vi_url video,
                             vm_viewCount = vi_viewCount video,
                             vm_uploadDate = vi_uploadDate video\<rparr> of
                       (tbl, r) \<Rightarrow> (\<lparr>st_d1 = d1, st_table = tbl\<rparr>, r)))))"

fun ingest_loop ::
  "web \<Rightarrow> env \<Rightarrow> VectorDatabase \<Rightarrow> ChannelInfo \<Rightarrow> stores \<Rightarrow> VideoInfo list \<Rightarrow> stores \<times> error option" where
  "ingest_loop w e vdb channel st [] = (st, None)"
| "ingest_loop w e vdb channel st (video # rest) =
     (case ingest_video w e vdb channel st video of
        (st1, Some err) \<Rightarrow> (st1, Some err)
      | (st1, None) \<Rightarrow> ingest_loop w e vdb channel st1 rest)"

datatype response_body =
    ErrorBody string
  | ChannelBody string string nat string

record response =
  status :: nat
  body :: response_body

text \<open>
  \<open>POST\<close> from the check for an existing channel on, for a request whose
  \<open>channelUrl\<close> is present and whose channel id \<open>chanId\<close> has been extracted. Everything runs
  inside one \<open>try\<close>; whatever is thrown is answered with status 500.
\<close>

definition POST_process_channel ::
  "web \<Rightarrow> env \<Rightarrow> VectorDatabase \<Rightarrow> stores \<Rightarrow> string \<Rightarrow> string \<Rightarrow> stores \<times> response" where
  "POST_process_channel w e vdb st channelUrl chanId =
     (let failed = \<lparr>status = 500, body = ErrorBody ''Failed to process channel''\<rparr>
      in case d1_error w chanId of
           Some err \<Rightarrow> (st, failed)
         | None \<Rightarrow>
             (case getChannel (st_d1 st) chanId of
                Some existingChannel \<Rightarrow>
                  (st, \<lparr>status = 200,
                        body = ChannelBody chanId (channel_name existingChannel)
                                 (length (take 100 (filter (\<lambda>v. v_channel_id v = chanId)
                                                      (videos (st_d1 st)))))
                                 ''Channel already processed''\<rparr>)
              | None \<Rightarrow>
                  (case scrapeChannelWithVideos w channelUrl 20 of
                     Inl err \<Rightarrow> (st, failed)
                   | Inr (channel, vids, logged) \<Rightarrow>
                       (case storeChannel w (st_d1 st) (channel_row channel) of
                          (d, Some err) \<Rightarrow> (st\<lparr>st_d1 := d\<rparr>, failed)
                        | (d, None) \<Rightarrow>
                            (case ingest_loop w e vdb channel (st\<lparr>st_d1 := d\<rparr>) vids of
                               (st1, Some err) \<Rightarrow> (st1, failed)
                             | (st1, None) \<Rightarrow>
                                 (st1, \<lparr>status = 200,
                                        body = ChannelBody chanId (ci_channelName channel)
                                                 (length vids)
                                                 ''Channel processed successfully''\<rparr>))))))"

section \<open>Example inputs\<close>

text \<open>
  Concrete inputs on which the statements below are evaluated. \<open>hard_cut\<close> stands in
  for the library's splitter there: consecutive pieces of at most \<open>n\<close> characters,
  none for the empty string.
\<close>

function hard_cut :: "nat \<Rightarrow> string \<Rightarrow> string list" where
  "hard_cut n [] = []"
| "hard_cut n (x # xs) =
     (if n = 0 then [x # xs] else take n (x # xs) # hard_cut n (drop n (x # xs)))"
  by pat_completeness auto
termination
  by (relation "measure (\<lambda>(n, xs). length xs)") auto

definition demo_metadata :: "string \<Rightarrow> source_kind \<Rightarrow> metadata" where
  "demo_metadata vid kind =
     \<lparr> videoId = vid, channelId = ''UC1'', videoTitle = ''Intro'',
       channelName = ''Chan'', url = ''https://www.youtube.com/watch?v='' @ vid,
       viewCount = None, uploadDate = None, source = kind, timestamp = None,
       likeCount = None, author = None \<rparr>"

definition demo_doc :: "string \<Rightarrow> source_kind \<Rightarrow> string \<Rightarrow> document" where
  "demo_doc vid kind txt = \<lparr>pageContent = txt, doc_metadata = demo_metadata vid kind\<rparr>"

text \<open>
  A world in which every service answers: the chain retrieves two chunks of the video
  \<open>v1\<close>, its transcript first and its description second.
\<close>

definition demo_env :: env where
  "demo_env =
     \<lparr> fromExistingIndex = Inr (),
       chain_call = (\<lambda>mem q. Inr \<lparr>text_of = ''ok'',
                       sourceDocuments = Some [demo_doc ''v1'' Transcript ''[125s] hello'',
                                               demo_doc ''v1'' Description ''about'']\<rparr>),
       splitText = hard_cut 1000,
       add_error = (\<lambda>docs. None),
       query_error = (\<lambda>q. None),
       distance = (\<lambda>q r. if row_content r = q then 0 else 1 / 2),
       match_threshold = 0 \<rparr>"

definition demo_db :: VectorDatabase where
  "demo_db = \<lparr>tableName = ''youtube_embeddings'', vectorStore = None\<rparr>"

definition demo_ai :: ConversationalAI where
  "demo_ai =
     new_ConversationalAI
       \<lparr>openaiApiKey = ''key'', modelName = Some ''gpt-4'', temperature = Some (7 / 10),
        maxTokens = None\<rparr> demo_db"

definition demo_tbl :: supabase where
  "demo_tbl = \<lparr>rows = [], next_id = 1\<rparr>"

text \<open>A table of three rows; the second has the content \<open>q\<close>.\<close>

definition demo_tbl3 :: supabase where
  "demo_tbl3 =
     \<lparr>rows = [\<lparr>row_id = 1, row_content = ''a'', row_metadata = demo_metadata ''v1'' Transcript\<rparr>,
              \<lparr>row_id = 2, row_content = ''q'', row_metadata = demo_metadata ''v2'' Title\<rparr>,
              \<lparr>row_id = 3, row_content = ''b'', row_metadata = demo_metadata ''v3'' Description\<rparr>],
      next_id = 4\<rparr>"

definition demo_ready_db :: VectorDatabase where
  "demo_ready_db =
     \<lparr>tableName = ''youtube_embeddings'',
      vectorStore = Some \<lparr>vs_tableName = ''youtube_embeddings'', vs_queryName = ''match_documents''\<rparr>\<rparr>"

definition demo_video_meta :: video_meta where
  "demo_video_meta =
     \<lparr>vm_channelName = ''Chan'', vm_url = ''https://www.youtube.com/watch?v=v1'',
      vm_viewCount = Some 10, vm_uploadDate = None\<rparr>"

text \<open>A world in which the store rejects every batch.\<close>

definition demo_down_env :: env where
  "demo_down_env = demo_env\<lparr>add_error := \<lambda>docs. Some (IndexUnavailableError ''down'')\<rparr>"

definition demo_comment :: comment where
  "demo_comment = \<lparr>c_author = ''alice'', c_content = ''nice'', c_likeCount = Some 3\<rparr>"

definition demo_empty_comment :: comment where
  "demo_empty_comment = \<lparr>c_author = ''bob'', c_content = [], c_likeCount = None\<rparr>"

text \<open>The \<open>videos\<close> table holding the video \<open>v1\<close> only.\<close>

definition demo_video :: Video where
  "demo_video =
     \<lparr>video_id = ''v1'', v_channel_id = ''UC1'', v_title = ''Intro'',
      v_url = ''https://www.youtube.com/watch?v=v1'', v_upload_date = None, v_duration = 0,
      v_view_count = 10, v_like_count = 0, v_description = [], v_thumbnail_url = [],
      v_tags = []\<rparr>"

definition demo_videos :: "string \<rightharpoonup> Video" where
  "demo_videos = [''v1'' \<mapsto> demo_video]"

text \<open>A transcript citation whose timestamp field carries the marker \<open>[125s]\<close>.\<close>

definition demo_source :: "string \<Rightarrow> source_entry" where
  "demo_source vid =
     \<lparr>src_videoId = vid, src_videoTitle = ''Intro'', src_channelName = ''Chan'',
      src_url = ''https://www.youtube.com/watch?v='' @ vid, src_source = Transcript,
      src_timestamp = Some ''[125s] hello''\<rparr>"

text \<open>
  A channel with two video links. In \<open>demo_web\<close> both pages can be read and D1
  rejects the statements for the first video; in \<open>demo_web_404\<close> D1 accepts
  everything and the page of the first video cannot be read.
\<close>

definition demo_channel :: ChannelInfo where
  "demo_channel =
     \<lparr>ci_channelId = ''UC1'', ci_channelName = ''Chan'',
      ci_channelUrl = ''https://www.youtube.com/channel/UC1'', ci_subscriberCount = None,
      ci_videoCount = Some 2, ci_description = None, ci_thumbnailUrl = None\<rparr>"

definition demo_info :: "string \<Rightarrow> VideoInfo" where
  "demo_info vid =
     \<lparr>vi_videoId = vid, vi_title = ''Intro'', vi_url = ''https://www.youtube.com/watch?v='' @ vid,
      vi_channelId = ''UC1'', vi_uploadDate = None, vi_duration = None, vi_viewCount = Some 10,
      vi_likeCount = None, vi_description = Some ''A test video.'', vi_thumbnailUrl = None,
      vi_tags = None\<rparr>"

definition demo_web :: web where
  "demo_web =
     \<lparr>scrapeChannel = (\<lambda>u. Inr demo_channel),
      scrapeVideoLinks = (\<lambda>u n. Inr [''https://www.youtube.com/watch?v=v1'',
                                     ''https://www.youtube.com/watch?v=v2'']),
      scrapeVideo = (\<lambda>u. if u = ''https://www.youtube.com/watch?v=v1'' then Inr (demo_info ''v1'')
                         else if u = ''https://www.youtube.com/watch?v=v2'' then Inr (demo_info ''v2'')
                         else Inl (Error ''Failed to scrape video: Failed to fetch video: 404'')),
      d1_error = (\<lambda>k. if k = ''v1'' then Some (Error ''D1_ERROR'') else None)\<rparr>"

definition demo_web_404 :: web where
  "demo_web_404 =
     demo_web\<lparr>scrapeVideo := (\<lambda>u. if u = ''https://www.youtube.com/watch?v=v2'' then Inr (demo_info ''v2'')
                         else Inl (Error ''Failed to scrape video: Failed to fetch video: 404'')),
               d1_error := (\<lambda>k. None)\<rparr>"

definition demo_stores :: stores where
  "demo_stores =
     \<lparr>st_d1 = \<lparr>channels = [], videos = [], transcripts = []\<rparr>, st_table = demo_tbl\<rparr>"

text \<open>
  The transcript chunk \<open>processVideoContent\<close> creates for the video \<open>v1\<close> from the
  transcript \<open>[125s] hello\<close>, and a world in which the chain retrieves that chunk.
\<close>

definition demo_transcript_doc :: document where
  "demo_transcript_doc =
     \<lparr>pageContent = ''[125s] hello'',
      doc_metadata = chunk_metadata ''v1'' ''UC1'' ''Intro'' demo_video_meta Transcript\<rparr>"

definition demo_transcript_env :: env where
  "demo_transcript_env =
     demo_env\<lparr>chain_call := \<lambda>mem q. Inr \<lparr>text_of = ''ok'',
                                            sourceDocuments = Some [demo_transcript_doc]\<rparr>\<rparr>"

definition demo_comment_meta :: comment_meta where
  "demo_comment_meta =
     \<lparr>cm_channelName = ''Chan'', cm_url = ''https://www.youtube.com/watch?v=v1''\<rparr>"

section \<open>Properties of the constructor\<close>

text \<open>
  C10. A configuration that supplies temperature 0 gets the default 0.7, and one that
  supplies maxTokens 0 gets the default 1000: the zero is falsy and the
  \<open>||\<close> operator replaces it, exactly as it replaces a missing value.
\<close>

theorem zero_temperature_replaced_by_default:
  "opt_temperature (model (new_ConversationalAI (cfg\<lparr>temperature := Some 0\<rparr>) db)) = 7 / 10
   \<and> opt_maxTokens (model (new_ConversationalAI (cfg\<lparr>maxTokens := Some 0\<rparr>) db)) = 1000
   \<and> model (new_ConversationalAI (cfg\<lparr>temperature := Some 0\<rparr>) db)
       = model (new_ConversationalAI (cfg\<lparr>temperature := None\<rparr>) db)
   \<and> model (new_ConversationalAI (cfg\<lparr>maxTokens := Some 0\<rparr>) db)
       = model (new_ConversationalAI (cfg\<lparr>maxTokens := None\<rparr>) db)"
  by (simp add: new_ConversationalAI_def new_OpenAI_def or_number_def)

section \<open>Properties of \<open>processMessage\<close>: the sources\<close>

lemma new_Map_snoc: "new_Map (es @ [(k, v)]) = Map_set (new_Map es) k v"
  by (simp add: new_Map_def)

lemma Map_set_fresh: "k \<notin> fst ` set m \<Longrightarrow> Map_set m k v = m @ [(k, v)]"
  by (induction m) auto

lemma Map_set_present:
  "k \<in> fst ` set m \<Longrightarrow> distinct (map fst m) \<Longrightarrow>
   Map_set m k v = map (\<lambda>e. if fst e = k then (k, v) else e) m"
proof (induction m)
  case Nil
  then show ?case by simp
next
  case (Cons a m)
  show ?case
  proof (cases "fst a = k")
    case True
    with Cons.prems have "k \<notin> fst ` set m" by auto
    then have "map (\<lambda>e. if fst e = k then (k, v) else e) m = m"
      by (induction m) auto
    with True show ?thesis by (cases a) simp
  next
    case False
    with Cons show ?thesis by (cases a) auto
  qed
qed

lemma first_occurrences_snoc:
  "first_occurrences (ks @ [k]) =
     (if k \<in> set ks then first_occurrences ks else first_occurrences ks @ [k])"
  by (simp add: first_occurrences_def)

lemma set_first_occurrences [simp]: "set (first_occurrences ks) = set ks"
  by (simp add: first_occurrences_def)

lemma distinct_first_occurrences [simp]: "distinct (first_occurrences ks)"
  by (simp add: first_occurrences_def)

lemma fst_last_write: "k \<in> fst ` set es \<Longrightarrow> fst (last_write es k) = k"
proof -
  assume "k \<in> fst ` set es"
  then have ne: "filter (\<lambda>e. fst e = k) es \<noteq> []" by (auto simp: filter_empty_conv)
  from last_in_set[OF ne] show ?thesis by (auto simp: last_write_def)
qed

lemma new_Map_eq:
  "new_Map es = map (last_write es) (first_occurrences (map fst es))"
proof (induction es rule: rev_induct)
  case Nil
  then show ?case by (simp add: new_Map_def first_occurrences_def)
next
  case (snoc a es)
  obtain k v where a: "a = (k, v)" by (cases a)
  let ?m = "new_Map es"
  have keys: "map fst ?m = first_occurrences (map fst es)"
  proof -
    have "map fst ?m = map (\<lambda>x. fst (last_write es x)) (first_occurrences (map fst es))"
      using snoc.IH by (simp add: comp_def)
    also have "\<dots> = first_occurrences (map fst es)"
      by (rule map_idI) (simp add: fst_last_write)
    finally show ?thesis .
  qed
  have other: "\<And>k'. k' \<noteq> k \<Longrightarrow> last_write (es @ [(k, v)]) k' = last_write es k'"
    by (simp add: last_write_def)
  have same: "last_write (es @ [(k, v)]) k = (k, v)"
    by (simp add: last_write_def)
  show ?case
  proof (cases "k \<in> set (map fst es)")
    case True
    then have "k \<in> fst ` set ?m" using keys
      by (metis list.set_map set_first_occurrences)
    moreover have "distinct (map fst ?m)" using keys by simp
    ultimately have "Map_set ?m k v = map (\<lambda>e. if fst e = k then (k, v) else e) ?m"
      by (rule Map_set_present)
    also have "\<dots> = map (last_write (es @ [(k, v)])) (first_occurrences (map fst es))"
      unfolding snoc.IH using other same
      by (auto simp: fst_last_write)
    finally show ?thesis using True
      by (simp add: a new_Map_snoc first_occurrences_snoc)
  next
    case False
    then have "k \<notin> fst ` set ?m" using keys
      by (metis list.set_map set_first_occurrences)
    then have "Map_set ?m k v = ?m @ [(k, v)]" by (rule Map_set_fresh)
    moreover have "map (last_write (es @ [(k, v)])) (first_occurrences (map fst es))
        = map (last_write es) (first_occurrences (map fst es))"
    proof (rule map_cong[OF refl])
      fix k' assume "k' \<in> set (first_occurrences (map fst es))"
      with False have "k' \<noteq> k" by auto
      then show "last_write (es @ [(k, v)]) k' = last_write es k'" by (rule other)
    qed
    ultimately show ?thesis using False same
      by (simp add: a new_Map_snoc first_occurrences_snoc snoc.IH)
  qed
qed

lemma uniqueSources_eq:
  "uniqueSources srcs =
     map (\<lambda>v. last (filter (\<lambda>s. src_videoId s = v) srcs))
       (first_occurrences (map src_videoId srcs))"
proof -
  let ?es = "map (\<lambda>item. (src_videoId item, item)) srcs"
  have fst_es: "map fst ?es = map src_videoId srcs" by (simp add: comp_def)
  have "uniqueSources srcs = map (\<lambda>k. snd (last_write ?es k)) (first_occurrences (map src_videoId srcs))"
    by (simp add: uniqueSources_def Map_values_def new_Map_eq fst_es comp_def)
  also have "\<dots> = map (\<lambda>v. last (filter (\<lambda>s. src_videoId s = v) srcs))
       (first_occurrences (map src_videoId srcs))"
  proof (rule map_cong[OF refl])
    fix k assume "k \<in> set (first_occurrences (map src_videoId srcs))"
    then have k: "k \<in> src_videoId ` set srcs" by simp
    then have ne: "filter (\<lambda>s. src_videoId s = k) srcs \<noteq> []"
      by (auto simp: filter_empty_conv)
    show "snd (last_write ?es k) = last (filter (\<lambda>s. src_videoId s = k) srcs)"
      using ne by (simp add: last_write_def filter_map comp_def last_map)
  qed
  finally show ?thesis .
qed

lemma uniqueSources_distinct: "distinct (map src_videoId (uniqueSources srcs))"
proof -
  have "map src_videoId (uniqueSources srcs) = first_occurrences (map src_videoId srcs)"
  proof -
    have "map src_videoId (uniqueSources srcs)
        = map (\<lambda>v. src_videoId (last (filter (\<lambda>s. src_videoId s = v) srcs)))
            (first_occurrences (map src_videoId srcs))"
      by (simp add: uniqueSources_eq comp_def)
    also have "\<dots> = first_occurrences (map src_videoId srcs)"
    proof (rule map_idI)
      fix k assume "k \<in> set (first_occurrences (map src_videoId srcs))"
      then have ne: "filter (\<lambda>s. src_videoId s = k) srcs \<noteq> []"
        by (auto simp: filter_empty_conv)
      from last_in_set[OF ne]
      show "src_videoId (last (filter (\<lambda>s. src_videoId s = k) srcs)) = k" by simp
    qed
    finally show ?thesis .
  qed
  then show ?thesis by simp
qed

lemma initialize_memory: "initialize e ai = Inr ai1 \<Longrightarrow> memory ai1 = memory ai"
  by (auto simp: initialize_def split: sum.splits option.splits)

lemma initialize_ok:
  "fromExistingIndex e = Inr u \<Longrightarrow> \<exists>ai1. initialize e ai = Inr ai1"
  by (simp add: initialize_def vdb_initialize_def)

text \<open>
  C1 (as amended). Every answer cites each video at most once. Where the chain call
  fails the list is empty; where it succeeds, the citations stand in the order in which
  the videos first occur among the retrieved chunks, and the citation of a video is the
  one built from its \<^emph>\<open>last\<close> retrieved chunk: a later chunk of the same video
  overwrites the earlier one in the \<open>Map\<close>.
\<close>

theorem sources_one_per_video_last_wins:
  assumes "snd (processMessage e ai msg) = Inr a"
  shows "distinct (map src_videoId (sources a)) \<and>
     (case chain_call e (memory ai) msg of
        Inl err \<Rightarrow> sources a = []
      | Inr result \<Rightarrow>
          sources a =
            map (\<lambda>v. last (filter (\<lambda>s. src_videoId s = v) (extract_sources result)))
              (first_occurrences (map src_videoId (extract_sources result))))"
proof -
  obtain ai1 where ai1: "(if qa_chain ai = None then initialize e ai else Inr ai) = Inr ai1"
    using assms by (auto simp: processMessage_def split: sum.splits)
  then have mem: "memory ai1 = memory ai"
    by (auto dest: initialize_memory split: if_splits)
  show ?thesis
  proof (cases "chain_call e (memory ai) msg")
    case (Inl err)
    with assms ai1 mem show ?thesis by (auto simp: processMessage_def)
  next
    case (Inr result)
    with assms ai1 mem have "sources a = uniqueSources (extract_sources result)"
      by (auto simp: processMessage_def Let_def)
    with Inr show ?thesis
      using uniqueSources_distinct[of "extract_sources result"]
            uniqueSources_eq[of "extract_sources result"] by simp
  qed
qed

lemma demo_processMessage:
  "processMessage demo_env demo_ai ''q'' =
     (demo_ai\<lparr>vectorDb := demo_db\<lparr>vectorStore :=
                 Some \<lparr>vs_tableName = ''youtube_embeddings'', vs_queryName = ''match_documents''\<rparr>\<rparr>,
              qa_chain := Some (Chain \<lparr>vs_tableName = ''youtube_embeddings'', vs_queryName = ''match_documents''\<rparr>),
              memory := [\<lparr>msg_role = User, msg_content = ''q''\<rparr>,
                         \<lparr>msg_role = Assistant, msg_content = ''ok''\<rparr>]\<rparr>,
      Inr \<lparr>response = ''ok'', sources = [to_source (demo_doc ''v1'' Description ''about'')]\<rparr>)"
  by (simp add: processMessage_def demo_env_def demo_ai_def demo_db_def new_ConversationalAI_def
      initialize_def vdb_initialize_def extract_sources_def uniqueSources_def new_Map_def
      Map_values_def to_source_def demo_doc_def demo_metadata_def saveContext_def)

theorem sources_one_per_video_last_wins_witness:
  "snd (processMessage demo_env demo_ai ''q'')
     = Inr \<lparr>response = ''ok'', sources = [to_source (demo_doc ''v1'' Description ''about'')]\<rparr>
   \<and> distinct (map src_videoId
        (sources \<lparr>response = ''ok'', sources = [to_source (demo_doc ''v1'' Description ''about'')]\<rparr>))"
proof -
  have h: "snd (processMessage demo_env demo_ai ''q'')
     = Inr \<lparr>response = ''ok'', sources = [to_source (demo_doc ''v1'' Description ''about'')]\<rparr>"
    by (simp add: demo_processMessage)
  from sources_one_per_video_last_wins[OF h] h show ?thesis by blast
qed

text \<open>
  C1 as stated fails: with the transcript chunk of \<open>v1\<close> retrieved first and its
  description chunk second, the one citation kept is the description's.
\<close>

theorem first_occurrence_kept_counterexample:
  "snd (processMessage demo_env demo_ai ''q'')
     = Inr \<lparr>response = ''ok'', sources = [to_source (demo_doc ''v1'' Description ''about'')]\<rparr>
   \<and> to_source (demo_doc ''v1'' Description ''about'')
       \<noteq> to_source (demo_doc ''v1'' Transcript ''[125s] hello'')"
  by (simp add: demo_processMessage to_source_def demo_doc_def demo_metadata_def)

section \<open>Properties of \<open>processMessage\<close>: failures\<close>

lemma lazy_initialize_ok:
  assumes "qa_chain ai \<noteq> None \<or> fromExistingIndex e = Inr ()"
  shows "\<exists>ai1. (if qa_chain ai = None then initialize e ai else Inr ai) = Inr ai1
               \<and> memory ai1 = memory ai"
proof (cases "qa_chain ai = None")
  case True
  with assms have "fromExistingIndex e = Inr ()" by simp
  then obtain ai1 where "initialize e ai = Inr ai1" using initialize_ok by blast
  with True show ?thesis by (auto dest: initialize_memory)
next
  case False
  then show ?thesis by auto
qed

theorem chain_failure_degrades_init_failure_throws:
  "((qa_chain ai \<noteq> None \<or> fromExistingIndex e = Inr ()) \<and> chain_call e (memory ai) msg = Inl err
     \<longrightarrow> snd (processMessage e ai msg) = Inr \<lparr>response = apology, sources = []\<rparr>
         \<and> memory (fst (processMessage e ai msg)) = memory ai)
   \<and> (qa_chain ai = None \<and> fromExistingIndex e = Inl err0
     \<longrightarrow> processMessage e ai msg
           = (ai, Inl (Error (''Failed to initialize conversational AI: '' @ message err0))))"
proof (intro conjI impI)
  assume a: "(qa_chain ai \<noteq> None \<or> fromExistingIndex e = Inr ()) \<and> chain_call e (memory ai) msg = Inl err"
  then obtain ai1 where ai1: "(if qa_chain ai = None then initialize e ai else Inr ai) = Inr ai1"
    and mem: "memory ai1 = memory ai"
    using lazy_initialize_ok[of ai e] by blast
  from a have fail: "chain_call e (memory ai) msg = Inl err" by simp
  from ai1 mem fail show "snd (processMessage e ai msg) = Inr \<lparr>response = apology, sources = []\<rparr>"
    by (simp add: processMessage_def)
  from ai1 mem fail show "memory (fst (processMessage e ai msg)) = memory ai"
    by (simp add: processMessage_def)
next
  assume "qa_chain ai = None \<and> fromExistingIndex e = Inl err0"
  then show "processMessage e ai msg
           = (ai, Inl (Error (''Failed to initialize conversational AI: '' @ message err0)))"
    by (simp add: processMessage_def initialize_def vdb_initialize_def)
qed

theorem chain_failure_degrades_init_failure_throws_witness:
  "fromExistingIndex (demo_env\<lparr>chain_call := \<lambda>mem q. Inl (GenerationError ''no content'')\<rparr>) = Inr ()
   \<and> chain_call (demo_env\<lparr>chain_call := \<lambda>mem q. Inl (GenerationError ''no content'')\<rparr>)
        (memory demo_ai) ''q'' = Inl (GenerationError ''no content'')
   \<and> snd (processMessage (demo_env\<lparr>chain_call := \<lambda>mem q. Inl (GenerationError ''no content'')\<rparr>)
        demo_ai ''q'') = Inr \<lparr>response = apology, sources = []\<rparr>
   \<and> memory (fst (processMessage (demo_env\<lparr>chain_call := \<lambda>mem q. Inl (GenerationError ''no content'')\<rparr>)
        demo_ai ''q'')) = memory demo_ai
   \<and> qa_chain demo_ai = None
   \<and> fromExistingIndex (demo_env\<lparr>fromExistingIndex := Inl (IndexUnavailableError ''down'')\<rparr>)
       = Inl (IndexUnavailableError ''down'')
   \<and> processMessage (demo_env\<lparr>fromExistingIndex := Inl (IndexUnavailableError ''down'')\<rparr>) demo_ai ''q''
       = (demo_ai, Inl (Error ''Failed to initialize conversational AI: down''))"
proof -
  let ?e1 = "demo_env\<lparr>chain_call := \<lambda>mem q. Inl (GenerationError ''no content'')\<rparr>"
  let ?e2 = "demo_env\<lparr>fromExistingIndex := Inl (IndexUnavailableError ''down'')\<rparr>"
  have h1: "fromExistingIndex ?e1 = Inr ()" by (simp add: demo_env_def)
  have h2: "chain_call ?e1 (memory demo_ai) ''q'' = Inl (GenerationError ''no content'')" by simp
  have h3: "qa_chain demo_ai = None" by (simp add: demo_ai_def new_ConversationalAI_def)
  have h4: "fromExistingIndex ?e2 = Inl (IndexUnavailableError ''down'')" by simp
  from chain_failure_degrades_init_failure_throws[of demo_ai ?e1 "''q''" "GenerationError ''no content''"]
    h1 h2
  have c1: "snd (processMessage ?e1 demo_ai ''q'') = Inr \<lparr>response = apology, sources = []\<rparr>
     \<and> memory (fst (processMessage ?e1 demo_ai ''q'')) = memory demo_ai"
    by blast
  from chain_failure_degrades_init_failure_throws
    [where ai = demo_ai and e = ?e2 and ?err0.0 = "IndexUnavailableError ''down''" and msg = "''q''"]
    h3 h4
  have c2: "processMessage ?e2 demo_ai ''q''
       = (demo_ai, Inl (Error ''Failed to initialize conversational AI: down''))"
    by simp
  from h1 h2 h3 h4 c1 c2 show ?thesis by blast
qed

text \<open>
  C4 as stated fails: on an engine whose chain is not built yet, an index that cannot
  be opened makes \<open>processMessage\<close> throw instead of returning the apology.
\<close>

theorem index_unavailable_propagates_counterexample:
  "processMessage (demo_env\<lparr>fromExistingIndex := Inl (IndexUnavailableError ''down'')\<rparr>) demo_ai ''q''
     = (demo_ai, Inl (Error ''Failed to initialize conversational AI: down''))
   \<and> snd (processMessage (demo_env\<lparr>fromExistingIndex := Inl (IndexUnavailableError ''down'')\<rparr>)
        demo_ai ''q'') \<noteq> Inr \<lparr>response = apology, sources = []\<rparr>"
  by (simp add: processMessage_def initialize_def vdb_initialize_def demo_ai_def
      new_ConversationalAI_def demo_db_def)

section \<open>Properties of the store calls\<close>

lemma document_eta: "\<lparr>pageContent = pageContent d, doc_metadata = doc_metadata d\<rparr> = (d::document)"
  by (cases d) simp

lemma row_document_fresh_rows: "map row_document (fresh_rows n docs) = docs"
proof -
  have "map row_document (fresh_rows n docs) = map snd (zip [n ..< n + length docs] docs)"
    by (simp add: fresh_rows_def row_document_def case_prod_unfold comp_def document_eta)
  also have "\<dots> = docs" by (simp add: map_snd_zip)
  finally show ?thesis .
qed

lemma addDocuments_accepted:
  "add_error e docs = None \<Longrightarrow>
   snd (addDocuments e tbl docs) = None
   \<and> stored_documents (fst (addDocuments e tbl docs)) = stored_documents tbl @ docs"
  by (simp add: addDocuments_def stored_documents_def row_document_fresh_rows)

lemma addDocuments_rejected:
  "snd (addDocuments e tbl docs) = Some err \<Longrightarrow> add_error e docs = Some err"
  by (auto simp: addDocuments_def split: option.splits)

lemma add_if_initialized_null:
  "vectorStore db = None \<Longrightarrow> add_if_initialized e db tbl docs = (tbl, None)"
  by (simp add: add_if_initialized_def)

lemma add_if_initialized_accepted:
  "vectorStore db \<noteq> None \<Longrightarrow> add_error e docs = None \<Longrightarrow>
   snd (add_if_initialized e db tbl docs) = None
   \<and> stored_documents (fst (add_if_initialized e db tbl docs)) = stored_documents tbl @ docs"
  using addDocuments_accepted[of e docs tbl] by (simp add: add_if_initialized_def)

lemma add_if_initialized_rejected:
  "snd (add_if_initialized e db tbl docs) = Some err \<Longrightarrow>
   add_error e docs = Some err \<and> vectorStore db \<noteq> None"
  by (auto simp: add_if_initialized_def dest: addDocuments_rejected split: if_splits)

lemma and_then_ok: "snd r = None \<Longrightarrow> and_then r f = f (fst r)"
  by (cases r) (simp add: and_then_def)

lemma and_then_error:
  "snd (and_then r f) = Some err \<Longrightarrow> snd r = Some err \<or> (snd r = None \<and> snd (f (fst r)) = Some err)"
  by (cases r) (auto simp: and_then_def split: option.splits)

lemma processVideoContent_null:
  "vectorStore db = None \<Longrightarrow>
   processVideoContent e db tbl vid cid title transcript description md = (tbl, None)"
  by (simp add: processVideoContent_def add_if_initialized_def and_then_def Let_def)

lemma processVideoContent_error:
  assumes "snd (processVideoContent e db tbl vid cid title transcript description md) = Some err"
  shows "(\<exists>docs. add_error e docs = Some err) \<and> vectorStore db \<noteq> None"
proof -
  let ?t = "if transcript \<noteq> []
        then add_if_initialized e db tbl
               (createDocuments e transcript (chunk_metadata vid cid title md Transcript))
        else (tbl, None)"
  let ?d = "\<lambda>tbl1. if description \<noteq> []
             then add_if_initialized e db tbl1
                    (createDocuments e description (chunk_metadata vid cid title md Description))
             else (tbl1, None)"
  let ?ti = "\<lambda>tbl2. (let titleDoc = createDocuments e title (chunk_metadata vid cid title md Title)
                in if vectorStore db \<noteq> None \<and> length titleDoc > 0
                   then addDocuments e tbl2 titleDoc
                   else (tbl2, None))"
  have pvc: "processVideoContent e db tbl vid cid title transcript description md
      = and_then ?t (\<lambda>tbl1. and_then (?d tbl1) ?ti)"
    by (simp add: processVideoContent_def)
  from assms[unfolded pvc] and_then_error
  consider "snd ?t = Some err"
    | "snd (and_then (?d (fst ?t)) ?ti) = Some err" by blast
  then show ?thesis
  proof cases
    case 1
    then show ?thesis by (auto dest: add_if_initialized_rejected split: if_splits)
  next
    case 2
    from and_then_error[OF 2]
    consider "snd (?d (fst ?t)) = Some err" | "snd (?ti (fst (?d (fst ?t)))) = Some err" by blast
    then show ?thesis
    proof cases
      case 1
      then show ?thesis by (auto dest: add_if_initialized_rejected split: if_splits)
    next
      case 2
      then show ?thesis
        by (auto simp: Let_def dest: addDocuments_rejected split: if_splits)
    qed
  qed
qed

lemma processVideoContent_accepted:
  assumes ready: "vectorStore db \<noteq> None" and acc: "\<forall>docs. add_error e docs = None"
  shows "snd (processVideoContent e db tbl vid cid title transcript description md) = None
     \<and> stored_documents (fst (processVideoContent e db tbl vid cid title transcript description md))
        = stored_documents tbl @ video_documents e vid cid title transcript description md"
proof -
  have sndN: "\<And>t docs. snd (addDocuments e t docs) = None"
    using acc addDocuments_accepted by blast
  have st: "\<And>t docs. stored_documents (fst (addDocuments e t docs)) = stored_documents t @ docs"
    using acc addDocuments_accepted by blast
  have addi: "\<And>t docs. add_if_initialized e db t docs = addDocuments e t docs"
    using ready by (simp add: add_if_initialized_def)
  show ?thesis
    unfolding processVideoContent_def video_documents_def addi Let_def
    using ready by (simp add: and_then_ok sndN st)
qed

section \<open>Properties of the comment loop\<close>

lemma comments_loop_null:
  "vectorStore db = None \<Longrightarrow> comments_loop e db vid cid title md tbl cs = (tbl, None)"
  by (induction cs) (simp_all add: add_if_initialized_def and_then_def)

lemma comments_loop_error:
  "snd (comments_loop e db vid cid title md tbl cs) = Some err \<Longrightarrow>
   (\<exists>docs. add_error e docs = Some err) \<and> vectorStore db \<noteq> None"
proof (induction cs arbitrary: tbl)
  case Nil
  then show ?case by simp
next
  case (Cons c cs)
  show ?case
  proof (cases "c_content c = []")
    case True
    with Cons show ?thesis by simp
  next
    case False
    let ?r = "add_if_initialized e db tbl (comment_documents e vid cid title md c)"
    from Cons.prems False
    have "snd (and_then ?r (\<lambda>tbl1. comments_loop e db vid cid title md tbl1 cs)) = Some err"
      by simp
    from and_then_error[OF this]
    consider "snd ?r = Some err"
      | "snd (comments_loop e db vid cid title md (fst ?r) cs) = Some err" by blast
    then show ?thesis
    proof cases
      case 1
      then show ?thesis by (auto dest: add_if_initialized_rejected)
    next
      case 2
      then show ?thesis by (rule Cons.IH)
    qed
  qed
qed

lemma comments_loop_accepted:
  assumes ready: "vectorStore db \<noteq> None" and acc: "\<forall>docs. add_error e docs = None"
  shows "snd (comments_loop e db vid cid title md tbl cs) = None
     \<and> stored_documents (fst (comments_loop e db vid cid title md tbl cs))
        = stored_documents tbl
          @ concat (map (comment_documents e vid cid title md) (filter (\<lambda>c. c_content c \<noteq> []) cs))"
proof (induction cs arbitrary: tbl)
  case Nil
  show ?case by simp
next
  case (Cons c cs)
  have step: "\<And>t docs. snd (add_if_initialized e db t docs) = None
      \<and> stored_documents (fst (add_if_initialized e db t docs)) = stored_documents t @ docs"
    using add_if_initialized_accepted[OF ready] acc by blast
  show ?case
  proof (cases "c_content c = []")
    case True
    with Cons.IH show ?thesis by simp
  next
    case False
    then show ?thesis using Cons.IH step by (simp add: and_then_ok)
  qed
qed

lemma comments_loop_prefix:
  "\<exists>n. stored_documents (fst (comments_loop e db vid cid title md tbl cs))
        = stored_documents tbl
          @ concat (take n (map (comment_documents e vid cid title md)
                              (filter (\<lambda>c. c_content c \<noteq> []) cs)))"
proof (induction cs arbitrary: tbl)
  case Nil
  show ?case by simp
next
  case (Cons c cs)
  let ?D = "comment_documents e vid cid title md"
  let ?ne = "\<lambda>c. c_content c \<noteq> []"
  show ?case
  proof (cases "c_content c = []")
    case True
    with Cons.IH[of tbl] show ?thesis by simp
  next
    case False
    let ?r = "add_if_initialized e db tbl (?D c)"
    show ?thesis
    proof (cases "snd ?r")
      case (Some err)
      then have "?r = (tbl, Some err)"
        by (auto simp: add_if_initialized_def addDocuments_def split: if_splits option.splits)
      then have "fst (comments_loop e db vid cid title md tbl (c # cs)) = tbl"
        using False by (simp add: and_then_def)
      then have "stored_documents (fst (comments_loop e db vid cid title md tbl (c # cs)))
          = stored_documents tbl @ concat (take 0 (map ?D (filter ?ne (c # cs))))" by simp
      then show ?thesis by blast
    next
      case None
      then have loop: "comments_loop e db vid cid title md tbl (c # cs)
          = comments_loop e db vid cid title md (fst ?r) cs"
        using False by (simp add: and_then_ok)
      from Cons.IH[of "fst ?r"] obtain n where
        n: "stored_documents (fst (comments_loop e db vid cid title md (fst ?r) cs))
            = stored_documents (fst ?r) @ concat (take n (map ?D (filter ?ne cs)))" by blast
      show ?thesis
      proof (cases "vectorStore db = None")
        case True
        then have "fst ?r = tbl" by (simp add: add_if_initialized_def)
        moreover from True have "comments_loop e db vid cid title md tbl cs = (tbl, None)"
          by (rule comments_loop_null)
        ultimately have "stored_documents (fst (comments_loop e db vid cid title md tbl (c # cs)))
          = stored_documents tbl @ concat (take 0 (map ?D (filter ?ne (c # cs))))"
          using loop by simp
        then show ?thesis by blast
      next
        case ready: False
        from None ready have "add_error e (?D c) = None"
          by (auto simp: add_if_initialized_def addDocuments_def split: option.splits)
        from add_if_initialized_accepted[OF ready this]
        have "stored_documents (fst ?r) = stored_documents tbl @ ?D c" by simp
        with n loop False
        have "stored_documents (fst (comments_loop e db vid cid title md tbl (c # cs)))
          = stored_documents tbl @ concat (take (Suc n) (map ?D (filter ?ne (c # cs))))"
          by simp
        then show ?thesis by blast
      qed
    qed
  qed
qed

lemma hard_cut_short: "xs \<noteq> [] \<Longrightarrow> length xs \<le> n \<Longrightarrow> hard_cut n xs = [xs]"
  by (cases xs) (auto)

lemma demo_split_short: "xs \<noteq> [] \<Longrightarrow> length xs \<le> 1000 \<Longrightarrow> splitText demo_env xs = [xs]"
  by (simp add: demo_env_def hard_cut_short)

lemma demo_accepts: "\<forall>docs. add_error demo_env docs = None"
  by (simp add: demo_env_def)

lemma demo_ready: "vectorStore demo_ready_db \<noteq> None"
  by (simp add: demo_ready_db_def)

section \<open>Properties of the normalizer: validation and effects\<close>

lemma processComments_null:
  "vectorStore db = None \<Longrightarrow> processComments e db tbl vid cid title comments md = (tbl, None)"
  by (simp add: processComments_def comments_loop_null)

lemma processComments_error:
  "snd (processComments e db tbl vid cid title comments md) = Some err \<Longrightarrow>
   (\<exists>docs. add_error e docs = Some err) \<and> vectorStore db \<noteq> None"
  by (auto simp: processComments_def dest: comments_loop_error split: if_splits)

lemma processComments_loop:
  "processComments e db tbl vid cid title comments md
     = comments_loop e db vid cid title md tbl comments"
  by (cases comments) (simp_all add: processComments_def)

lemma and_then_return: "and_then r (\<lambda>t. (t, None)) = r"
  by (cases r) (auto simp: and_then_def split: option.splits)

lemma and_then_pure: "and_then (t, None) f = f t"
  by (simp add: and_then_def)

lemma add_batches_result:
  "snd (add_batches e tbl bs) = first_rejection e bs
   \<and> stored_documents (fst (add_batches e tbl bs))
       = stored_documents tbl @ concat (accepted_batches e bs)"
proof (induction bs arbitrary: tbl)
  case Nil
  show ?case by (simp add: first_rejection_def accepted_batches_def)
next
  case (Cons b bs)
  show ?case
  proof (cases "add_error e b")
    case None
    from addDocuments_accepted[OF None, of tbl]
    have s: "snd (addDocuments e tbl b) = None"
      and d: "stored_documents (fst (addDocuments e tbl b)) = stored_documents tbl @ b"
      by simp_all
    from Cons.IH[of "fst (addDocuments e tbl b)"] None s d show ?thesis
      by (simp add: and_then_ok first_rejection_def accepted_batches_def)
  next
    case (Some err)
    then show ?thesis
      by (simp add: addDocuments_def and_then_def first_rejection_def accepted_batches_def)
  qed
qed

lemma processVideoContent_batches:
  assumes "vectorStore db \<noteq> None"
  shows "processVideoContent e db tbl vid cid title transcript description md
     = add_batches e tbl (video_batches e vid cid title transcript description md)"
  using assms
  by (simp add: processVideoContent_def video_batches_def add_if_initialized_def Let_def
      and_then_return and_then_pure)

lemma comments_loop_batches:
  assumes "vectorStore db \<noteq> None"
  shows "comments_loop e db vid cid title md tbl cs
     = add_batches e tbl (comment_batches e vid cid title md cs)"
  using assms
  by (induction cs arbitrary: tbl) (simp_all add: comment_batches_def add_if_initialized_def)

lemma first_rejection_Some:
  "first_rejection e bs = Some err \<Longrightarrow> \<exists>b\<in>set bs. add_error e b = Some err"
proof (induction bs)
  case Nil
  then show ?case by (simp add: first_rejection_def)
next
  case (Cons b bs)
  then show ?case by (cases "add_error e b") (auto simp: first_rejection_def)
qed

lemma concat_video_batches:
  "concat (video_batches e vid cid title transcript description md)
     = video_documents e vid cid title transcript description md"
  by (simp add: video_batches_def video_documents_def)

lemma all_accepted:
  "\<forall>b\<in>set bs. add_error e b = None \<Longrightarrow>
   first_rejection e bs = None \<and> accepted_batches e bs = bs"
  by (induction bs) (simp_all add: first_rejection_def accepted_batches_def)

text \<open>
  C2 (as amended). The normalizer validates nothing and raises no error of its own,
  whatever the \<open>videoId\<close> and \<open>channelId\<close>, empty or not. With an uninitialised
  store a call returns without an error and leaves the table as it was. With an
  initialised store it hands its batches to the store in order: it fails exactly with
  the error with which the store rejects the first batch it rejects, and it has then
  appended the documents of the batches before that one; so an error of a call is
  always the store's error for one of the batches handed over, a call succeeds when the
  store accepts every batch, and \<open>processVideoContent\<close> has then appended the
  documents of the transcript, the description and the title. It is not pure.
\<close>

theorem normalizer_fails_only_when_store_rejects:
  "(vectorStore db = None
      \<longrightarrow> processVideoContent e db tbl vid cid title transcript description md = (tbl, None)
          \<and> processComments e db tbl vid cid title comments cmd = (tbl, None))
   \<and> (vectorStore db \<noteq> None
      \<longrightarrow> snd (processVideoContent e db tbl vid cid title transcript description md)
            = first_rejection e (video_batches e vid cid title transcript description md)
          \<and> stored_documents (fst (processVideoContent e db tbl vid cid title transcript description md))
            = stored_documents tbl
              @ concat (accepted_batches e (video_batches e vid cid title transcript description md))
          \<and> snd (processComments e db tbl vid cid title comments cmd)
            = first_rejection e (comment_batches e vid cid title cmd comments)
          \<and> stored_documents (fst (processComments e db tbl vid cid title comments cmd))
            = stored_documents tbl
              @ concat (accepted_batches e (comment_batches e vid cid title cmd comments)))
   \<and> (snd (processVideoContent e db tbl vid cid title transcript description md) = Some err
      \<longrightarrow> (\<exists>b\<in>set (video_batches e vid cid title transcript description md).
             add_error e b = Some err)
          \<and> vectorStore db \<noteq> None)
   \<and> (snd (processComments e db tbl vid cid title comments cmd) = Some err
      \<longrightarrow> (\<exists>b\<in>set (comment_batches e vid cid title cmd comments). add_error e b = Some err)
          \<and> vectorStore db \<noteq> None)
   \<and> ((\<forall>docs. add_error e docs = None)
      \<longrightarrow> snd (processVideoContent e db tbl vid cid title transcript description md) = None
          \<and> snd (processComments e db tbl vid cid title comments cmd) = None)
   \<and> (vectorStore db \<noteq> None \<and> (\<forall>docs. add_error e docs = None)
      \<longrightarrow> stored_documents (fst (processVideoContent e db tbl vid cid title transcript description md))
          = stored_documents tbl @ video_documents e vid cid title transcript description md)"
proof -
  let ?pvc = "processVideoContent e db tbl vid cid title transcript description md"
  let ?pc = "processComments e db tbl vid cid title comments cmd"
  let ?vb = "video_batches e vid cid title transcript description md"
  let ?cb = "comment_batches e vid cid title cmd comments"
  have null: "vectorStore db = None \<longrightarrow> ?pvc = (tbl, None) \<and> ?pc = (tbl, None)"
    by (simp add: processVideoContent_null processComments_null)
  have ready: "vectorStore db \<noteq> None
      \<longrightarrow> snd ?pvc = first_rejection e ?vb
          \<and> stored_documents (fst ?pvc) = stored_documents tbl @ concat (accepted_batches e ?vb)
          \<and> snd ?pc = first_rejection e ?cb
          \<and> stored_documents (fst ?pc) = stored_documents tbl @ concat (accepted_batches e ?cb)"
  proof
    assume r: "vectorStore db \<noteq> None"
    have "?pvc = add_batches e tbl ?vb" by (rule processVideoContent_batches[OF r])
    moreover have "?pc = add_batches e tbl ?cb"
      by (simp add: processComments_loop comments_loop_batches[OF r])
    ultimately show "snd ?pvc = first_rejection e ?vb
          \<and> stored_documents (fst ?pvc) = stored_documents tbl @ concat (accepted_batches e ?vb)
          \<and> snd ?pc = first_rejection e ?cb
          \<and> stored_documents (fst ?pc) = stored_documents tbl @ concat (accepted_batches e ?cb)"
      by (simp add: add_batches_result)
  qed
  have verr: "snd ?pvc = Some err
      \<longrightarrow> (\<exists>b\<in>set ?vb. add_error e b = Some err) \<and> vectorStore db \<noteq> None"
  proof
    assume a: "snd ?pvc = Some err"
    then have r: "vectorStore db \<noteq> None" using null by auto
    with ready a have "first_rejection e ?vb = Some err" by simp
    with r show "(\<exists>b\<in>set ?vb. add_error e b = Some err) \<and> vectorStore db \<noteq> None"
      using first_rejection_Some by blast
  qed
  have cerr: "snd ?pc = Some err
      \<longrightarrow> (\<exists>b\<in>set ?cb. add_error e b = Some err) \<and> vectorStore db \<noteq> None"
  proof
    assume a: "snd ?pc = Some err"
    then have r: "vectorStore db \<noteq> None" using null by auto
    with ready a have "first_rejection e ?cb = Some err" by simp
    with r show "(\<exists>b\<in>set ?cb. add_error e b = Some err) \<and> vectorStore db \<noteq> None"
      using first_rejection_Some by blast
  qed
  have acc: "(\<forall>docs. add_error e docs = None) \<longrightarrow> snd ?pvc = None \<and> snd ?pc = None"
  proof
    assume a: "\<forall>docs. add_error e docs = None"
    show "snd ?pvc = None \<and> snd ?pc = None"
    proof (cases "vectorStore db = None")
      case True
      with null show ?thesis by simp
    next
      case False
      with ready all_accepted[of ?vb e] all_accepted[of ?cb e] a show ?thesis by simp
    qed
  qed
  have docs: "vectorStore db \<noteq> None \<and> (\<forall>docs. add_error e docs = None)
      \<longrightarrow> stored_documents (fst ?pvc)
          = stored_documents tbl @ video_documents e vid cid title transcript description md"
    using processVideoContent_accepted by blast
  from null ready verr cerr acc docs show ?thesis by blast
qed

lemma demo_title_only:
  "processVideoContent demo_env demo_ready_db tbl vid cid ''T'' [] [] demo_video_meta
     = (\<lparr>rows = rows tbl @ [\<lparr>row_id = next_id tbl, row_content = ''T'',
                              row_metadata = chunk_metadata vid cid ''T'' demo_video_meta Title\<rparr>],
         next_id = next_id tbl + 1\<rparr>, None)"
  by (simp add: processVideoContent_def and_then_def createDocuments_def demo_split_short
      demo_ready_db_def addDocuments_def demo_accepts fresh_rows_def)

lemma demo_down_title_only:
  "processVideoContent demo_down_env demo_ready_db tbl vid cid ''T'' [] [] demo_video_meta
     = (tbl, Some (IndexUnavailableError ''down''))"
  by (simp add: processVideoContent_def and_then_def createDocuments_def demo_down_env_def
      demo_split_short demo_ready_db_def addDocuments_def)

lemma demo_comment_documents:
  "comment_documents demo_env vid cid title md demo_comment
     = [\<lparr>pageContent = ''alice: nice'', doc_metadata = comment_metadata vid cid title md demo_comment\<rparr>]"
  by (simp add: comment_documents_def createDocuments_def commentText_def demo_comment_def
      demo_split_short)

lemma demo_down_comments:
  "processComments demo_down_env demo_ready_db tbl vid cid title [demo_comment] md
     = (tbl, Some (IndexUnavailableError ''down''))"
  by (simp add: processComments_def and_then_def demo_down_env_def demo_comment_def
      add_if_initialized_def demo_ready_db_def addDocuments_def)

theorem normalizer_fails_only_when_store_rejects_witness:
  "vectorStore demo_db = None
   \<and> processVideoContent demo_env demo_db demo_tbl [] [] ''T'' [] [] demo_video_meta = (demo_tbl, None)
   \<and> processComments demo_env demo_db demo_tbl [] [] ''T'' [demo_comment] demo_comment_meta
       = (demo_tbl, None)
   \<and> vectorStore demo_ready_db \<noteq> None
   \<and> snd (processVideoContent demo_down_env demo_ready_db demo_tbl [] [] ''T'' [] [] demo_video_meta)
     = Some (IndexUnavailableError ''down'')
   \<and> snd (processComments demo_down_env demo_ready_db demo_tbl [] [] ''T'' [demo_comment] demo_comment_meta)
     = Some (IndexUnavailableError ''down'')
   \<and> (\<exists>b. b \<in> set (video_batches demo_down_env [] [] ''T'' [] [] demo_video_meta)
          \<and> add_error demo_down_env b = Some (IndexUnavailableError ''down''))
   \<and> (\<forall>docs. add_error demo_env docs = None)
   \<and> snd (processVideoContent demo_env demo_ready_db demo_tbl [] [] ''T'' [] [] demo_video_meta) = None
   \<and> snd (processComments demo_env demo_ready_db demo_tbl [] [] ''T'' [demo_comment] demo_comment_meta) = None
   \<and> stored_documents (fst (processVideoContent demo_env demo_ready_db demo_tbl [] [] ''T'' [] []
         demo_video_meta))
       = stored_documents demo_tbl @ video_documents demo_env [] [] ''T'' [] [] demo_video_meta"
proof -
  have n: "vectorStore demo_db = None" by (simp add: demo_db_def)
  have h1: "snd (processVideoContent demo_down_env demo_ready_db demo_tbl [] [] ''T'' [] [] demo_video_meta)
     = Some (IndexUnavailableError ''down'')"
    by (simp add: demo_down_title_only)
  have h2: "snd (processComments demo_down_env demo_ready_db demo_tbl [] [] ''T'' [demo_comment]
       demo_comment_meta) = Some (IndexUnavailableError ''down'')"
    by (simp add: demo_down_comments)
  note null = normalizer_fails_only_when_store_rejects
    [where e = demo_env and db = demo_db and tbl = demo_tbl and vid = "[]" and cid = "[]"
       and title = "''T''" and transcript = "[]" and description = "[]" and md = demo_video_meta
       and comments = "[demo_comment]" and cmd = demo_comment_meta]
  note down = normalizer_fails_only_when_store_rejects
    [where e = demo_down_env and db = demo_ready_db and tbl = demo_tbl and vid = "[]" and cid = "[]"
       and title = "''T''" and transcript = "[]" and description = "[]" and md = demo_video_meta
       and comments = "[demo_comment]" and cmd = demo_comment_meta
       and err = "IndexUnavailableError ''down''"]
  note up = normalizer_fails_only_when_store_rejects
    [where e = demo_env and db = demo_ready_db and tbl = demo_tbl and vid = "[]" and cid = "[]"
       and title = "''T''" and transcript = "[]" and description = "[]" and md = demo_video_meta
       and comments = "[demo_comment]" and cmd = demo_comment_meta]
  from null n
  have c0: "processVideoContent demo_env demo_db demo_tbl [] [] ''T'' [] [] demo_video_meta = (demo_tbl, None)
   \<and> processComments demo_env demo_db demo_tbl [] [] ''T'' [demo_comment] demo_comment_meta
       = (demo_tbl, None)" by blast
  from down h1
  have c1: "\<exists>b. b \<in> set (video_batches demo_down_env [] [] ''T'' [] [] demo_video_meta)
          \<and> add_error demo_down_env b = Some (IndexUnavailableError ''down'')" by blast
  from up demo_accepts demo_ready
  have c2: "snd (processVideoContent demo_env demo_ready_db demo_tbl [] [] ''T'' [] [] demo_video_meta) = None
   \<and> snd (processComments demo_env demo_ready_db demo_tbl [] [] ''T'' [demo_comment] demo_comment_meta) = None
   \<and> stored_documents (fst (processVideoContent demo_env demo_ready_db demo_tbl [] [] ''T'' [] []
         demo_video_meta))
       = stored_documents demo_tbl @ video_documents demo_env [] [] ''T'' [] [] demo_video_meta"
    by blast
  from n c0 demo_ready h1 h2 c1 demo_accepts c2 show ?thesis by blast
qed

text \<open>
  C2 as stated fails: with the empty \<open>videoId\<close> and the empty \<open>channelId\<close> the call
  returns without an error, and it has written a row.
\<close>

theorem empty_ids_accepted_counterexample:
  "processVideoContent demo_env demo_ready_db demo_tbl [] [] ''T'' [] [] demo_video_meta
     = (\<lparr>rows = [\<lparr>row_id = 1, row_content = ''T'',
                    row_metadata = chunk_metadata [] [] ''T'' demo_video_meta Title\<rparr>],
         next_id = 2\<rparr>, None)
   \<and> fst (processVideoContent demo_env demo_ready_db demo_tbl [] [] ''T'' [] [] demo_video_meta)
       \<noteq> demo_tbl"
  by (simp add: demo_title_only demo_tbl_def)

section \<open>Properties of the store: upserting twice\<close>

text \<open>
  C3 (as amended). \<open>addDocuments\<close> never overwrites: every call the store accepts
  appends one row per document under the next identifiers of the sequence. Upserting the
  same batch twice therefore leaves every document of the batch in the table twice, and,
  on an initialised store that accepts every batch, ingesting the same video twice
  stores all its chunks twice.
\<close>

theorem upsert_twice_stores_twice:
  "(add_error e docs = None
      \<longrightarrow> stored_documents (fst (addDocuments e (fst (addDocuments e tbl docs)) docs))
            = stored_documents tbl @ docs @ docs
          \<and> map row_id (rows (fst (addDocuments e (fst (addDocuments e tbl docs)) docs)))
            = map row_id (rows tbl) @ [next_id tbl ..< next_id tbl + 2 * length docs])
   \<and> (vectorStore db \<noteq> None \<and> (\<forall>docs. add_error e docs = None)
      \<longrightarrow> stored_documents
            (fst (processVideoContent e db
                    (fst (processVideoContent e db tbl vid cid title transcript description md))
                    vid cid title transcript description md))
          = stored_documents tbl
            @ video_documents e vid cid title transcript description md
            @ video_documents e vid cid title transcript description md)"
proof (intro conjI impI)
  assume acc: "add_error e docs = None"
  show "stored_documents (fst (addDocuments e (fst (addDocuments e tbl docs)) docs))
            = stored_documents tbl @ docs @ docs"
    using addDocuments_accepted[OF acc] by simp
  have ids: "\<And>n. map row_id (fresh_rows n docs) = [n ..< n + length docs]"
    by (simp add: fresh_rows_def case_prod_unfold comp_def map_fst_zip)
  have "[next_id tbl ..< next_id tbl + length docs]
        @ [next_id tbl + length docs ..< next_id tbl + length docs + length docs]
      = [next_id tbl ..< next_id tbl + 2 * length docs]"
    by (metis add.assoc le_add1 mult_2 upt_add_eq_append)
  then show "map row_id (rows (fst (addDocuments e (fst (addDocuments e tbl docs)) docs)))
            = map row_id (rows tbl) @ [next_id tbl ..< next_id tbl + 2 * length docs]"
    using acc by (simp add: addDocuments_def ids)
next
  assume "vectorStore db \<noteq> None \<and> (\<forall>docs. add_error e docs = None)"
  then have r: "vectorStore db \<noteq> None" and a: "\<forall>docs. add_error e docs = None" by simp_all
  from processVideoContent_accepted[OF r a]
  show "stored_documents
            (fst (processVideoContent e db
                    (fst (processVideoContent e db tbl vid cid title transcript description md))
                    vid cid title transcript description md))
          = stored_documents tbl
            @ video_documents e vid cid title transcript description md
            @ video_documents e vid cid title transcript description md"
    by simp
qed

lemma demo_title_documents:
  "video_documents demo_env vid cid ''T'' [] [] md
     = [\<lparr>pageContent = ''T'', doc_metadata = chunk_metadata vid cid ''T'' md Title\<rparr>]"
  by (simp add: video_documents_def createDocuments_def demo_split_short)

theorem upsert_twice_stores_twice_witness:
  "add_error demo_env [demo_doc ''v1'' Title ''T''] = None
   \<and> stored_documents (fst (addDocuments demo_env
        (fst (addDocuments demo_env demo_tbl [demo_doc ''v1'' Title ''T'']))
        [demo_doc ''v1'' Title ''T'']))
     = [demo_doc ''v1'' Title ''T'', demo_doc ''v1'' Title ''T'']
   \<and> map row_id (rows (fst (addDocuments demo_env
        (fst (addDocuments demo_env demo_tbl [demo_doc ''v1'' Title ''T'']))
        [demo_doc ''v1'' Title ''T'']))) = [1, 2]
   \<and> vectorStore demo_ready_db \<noteq> None
   \<and> (\<forall>docs. add_error demo_env docs = None)
   \<and> stored_documents
        (fst (processVideoContent demo_env demo_ready_db
                (fst (processVideoContent demo_env demo_ready_db demo_tbl ''v1'' ''UC1'' ''T'' [] []
                        demo_video_meta))
                ''v1'' ''UC1'' ''T'' [] [] demo_video_meta))
     = [\<lparr>pageContent = ''T'', doc_metadata = chunk_metadata ''v1'' ''UC1'' ''T'' demo_video_meta Title\<rparr>,
        \<lparr>pageContent = ''T'', doc_metadata = chunk_metadata ''v1'' ''UC1'' ''T'' demo_video_meta Title\<rparr>]"
proof -
  have h: "add_error demo_env [demo_doc ''v1'' Title ''T''] = None"
    by (simp add: demo_env_def)
  have nil: "stored_documents demo_tbl = []" "rows demo_tbl = []" "next_id demo_tbl = 1"
    by (simp_all add: stored_documents_def demo_tbl_def)
  have upt: "[1 ..< 1 + 2 * length [demo_doc ''v1'' Title ''T'']] = [1::nat, 2]"
    by (simp add: upt_rec)
  note inst = upsert_twice_stores_twice
    [where e = demo_env and docs = "[demo_doc ''v1'' Title ''T'']" and tbl = demo_tbl
       and db = demo_ready_db and vid = "''v1''" and cid = "''UC1''" and title = "''T''"
       and transcript = "[]" and description = "[]" and md = demo_video_meta]
  from inst h have c1: "stored_documents (fst (addDocuments demo_env
        (fst (addDocuments demo_env demo_tbl [demo_doc ''v1'' Title ''T'']))
        [demo_doc ''v1'' Title ''T'']))
     = [demo_doc ''v1'' Title ''T'', demo_doc ''v1'' Title ''T'']"
    by (simp add: nil)
  from inst h have c2: "map row_id (rows (fst (addDocuments demo_env
        (fst (addDocuments demo_env demo_tbl [demo_doc ''v1'' Title ''T'']))
        [demo_doc ''v1'' Title ''T'']))) = [1, 2]"
    using upt by (simp add: nil)
  from inst demo_ready demo_accepts have c3: "stored_documents
        (fst (processVideoContent demo_env demo_ready_db
                (fst (processVideoContent demo_env demo_ready_db demo_tbl ''v1'' ''UC1'' ''T'' [] []
                        demo_video_meta))
                ''v1'' ''UC1'' ''T'' [] [] demo_video_meta))
     = [\<lparr>pageContent = ''T'', doc_metadata = chunk_metadata ''v1'' ''UC1'' ''T'' demo_video_meta Title\<rparr>,
        \<lparr>pageContent = ''T'', doc_metadata = chunk_metadata ''v1'' ''UC1'' ''T'' demo_video_meta Title\<rparr>]"
    by (simp add: nil demo_title_documents)
  from h c1 c2 c3 demo_ready demo_accepts show ?thesis by blast
qed

text \<open>
  C3 as stated fails: after the same video is ingested twice the table holds two live
  rows with the same content and metadata, one more than after the first ingestion.
\<close>

theorem reingestion_duplicates_counterexample:
  "rows (fst (processVideoContent demo_env demo_ready_db demo_tbl ''v1'' ''UC1'' ''T'' [] []
            demo_video_meta))
     = [\<lparr>row_id = 1, row_content = ''T'',
         row_metadata = chunk_metadata ''v1'' ''UC1'' ''T'' demo_video_meta Title\<rparr>]
   \<and> rows (fst (processVideoContent demo_env demo_ready_db
              (fst (processVideoContent demo_env demo_ready_db demo_tbl ''v1'' ''UC1'' ''T'' [] []
                      demo_video_meta))
              ''v1'' ''UC1'' ''T'' [] [] demo_video_meta))
     = [\<lparr>row_id = 1, row_content = ''T'',
         row_metadata = chunk_metadata ''v1'' ''UC1'' ''T'' demo_video_meta Title\<rparr>,
        \<lparr>row_id = 2, row_content = ''T'',
         row_metadata = chunk_metadata ''v1'' ''UC1'' ''T'' demo_video_meta Title\<rparr>]
   \<and> \<not> distinct (stored_documents
        (fst (processVideoContent demo_env demo_ready_db
              (fst (processVideoContent demo_env demo_ready_db demo_tbl ''v1'' ''UC1'' ''T'' [] []
                      demo_video_meta))
              ''v1'' ''UC1'' ''T'' [] [] demo_video_meta)))"
  by (simp add: demo_title_only demo_tbl_def stored_documents_def row_document_def)

section \<open>Properties of the normalizer: the title\<close>

text \<open>
  C7 (as amended). The title is handed to the splitter once. When the store is
  initialised and the call succeeds, every piece the splitter returns has been stored as
  one chunk tagged \<open>title\<close>, in order: one when the splitter returns the title whole,
  more when it cuts it, none when it returns nothing. In every other case (the store is
  not initialised, or it rejects a batch of the call) the call has stored no title chunk.
\<close>

theorem title_chunks_are_the_splitter_pieces:
  "filter (\<lambda>d. source (doc_metadata d) = Title)
     (drop (length (stored_documents tbl))
        (stored_documents
           (fst (processVideoContent e db tbl vid cid title transcript description md))))
   = (if vectorStore db \<noteq> None
         \<and> snd (processVideoContent e db tbl vid cid title transcript description md) = None
      then map (\<lambda>piece. \<lparr>pageContent = piece, doc_metadata = chunk_metadata vid cid title md Title\<rparr>)
             (splitText e title)
      else [])"
proof (cases "vectorStore db = None")
  case True
  then show ?thesis by (simp add: processVideoContent_null)
next
  case False
  define bT where "bT = createDocuments e transcript (chunk_metadata vid cid title md Transcript)"
  define bD where "bD = createDocuments e description (chunk_metadata vid cid title md Description)"
  define bt where "bt = createDocuments e title (chunk_metadata vid cid title md Title)"
  let ?is = "\<lambda>d. source (doc_metadata d) = Title"
  have fT: "filter ?is bT = []" and fD: "filter ?is bD = []" and ft: "filter ?is bt = bt"
    by (simp_all add: bT_def bD_def bt_def createDocuments_def chunk_metadata_def filter_map comp_def)
  have pieces: "map (\<lambda>piece. \<lparr>pageContent = piece, doc_metadata = chunk_metadata vid cid title md Title\<rparr>)
             (splitText e title) = bt"
    by (simp add: bt_def createDocuments_def)
  have vb: "video_batches e vid cid title transcript description md
      = (if transcript \<noteq> [] then [bT] else []) @ (if description \<noteq> [] then [bD] else [])
        @ (if bt \<noteq> [] then [bt] else [])"
    by (simp add: video_batches_def bT_def bD_def bt_def)
  from processVideoContent_batches[OF False, of e tbl vid cid title transcript description md]
    add_batches_result[of e tbl "video_batches e vid cid title transcript description md"]
  have res: "snd (processVideoContent e db tbl vid cid title transcript description md)
        = first_rejection e (video_batches e vid cid title transcript description md)"
    and st: "stored_documents (fst (processVideoContent e db tbl vid cid title transcript description md))
        = stored_documents tbl
          @ concat (accepted_batches e (video_batches e vid cid title transcript description md))"
    by simp_all
  have "filter ?is (concat (accepted_batches e (video_batches e vid cid title transcript description md)))
      = (if first_rejection e (video_batches e vid cid title transcript description md) = None
         then bt else [])"
    unfolding vb
    by (cases "add_error e bT"; cases "add_error e bD"; cases "add_error e bt")
       (simp_all add: accepted_batches_def first_rejection_def fT fD ft)
  with False show ?thesis by (simp add: st res pieces)
qed

lemma hard_cut_step:
  "xs \<noteq> [] \<Longrightarrow> n \<noteq> 0 \<Longrightarrow> hard_cut n xs = take n xs # hard_cut n (drop n xs)"
  by (cases xs) simp_all

lemma hard_cut_1001:
  "hard_cut 1000 (replicate 1001 c) = [replicate 1000 c, [c]]"
proof -
  have ne: "replicate 1001 c \<noteq> []" by simp
  have t: "take 1000 (replicate 1001 c) = replicate 1000 c" by simp
  have d: "drop 1000 (replicate 1001 c) = [c]" by simp
  have "hard_cut 1000 (replicate 1001 c) = replicate 1000 c # hard_cut 1000 [c]"
    using hard_cut_step[OF ne, of 1000] by (simp only: t d)
  then show ?thesis by simp
qed

theorem title_chunks_are_the_splitter_pieces_witness:
  "splitText demo_env ''Intro'' = [''Intro'']
   \<and> filter (\<lambda>d. source (doc_metadata d) = Title)
        (drop (length (stored_documents demo_tbl))
           (stored_documents
              (fst (processVideoContent demo_env demo_ready_db demo_tbl ''v1'' ''UC1'' ''Intro''
                      ''[0s] Hello world.'' ''A test video.'' demo_video_meta))))
     = [\<lparr>pageContent = ''Intro'',
         doc_metadata = chunk_metadata ''v1'' ''UC1'' ''Intro'' demo_video_meta Title\<rparr>]
   \<and> filter (\<lambda>d. source (doc_metadata d) = Title)
        (drop (length (stored_documents demo_tbl))
           (stored_documents
              (fst (processVideoContent demo_env demo_db demo_tbl ''v1'' ''UC1'' ''Intro''
                      ''[0s] Hello world.'' ''A test video.'' demo_video_meta))))
     = []"
proof -
  have split: "splitText demo_env ''Intro'' = [''Intro'']"
    by (simp add: demo_split_short)
  have ok: "snd (processVideoContent demo_env demo_ready_db demo_tbl ''v1'' ''UC1'' ''Intro''
                      ''[0s] Hello world.'' ''A test video.'' demo_video_meta) = None"
    using processVideoContent_accepted[OF demo_ready demo_accepts] by blast
  have n: "vectorStore demo_db = None" by (simp add: demo_db_def)
  from title_chunks_are_the_splitter_pieces
    [where e = demo_env and db = demo_ready_db and tbl = demo_tbl and vid = "''v1''"
       and cid = "''UC1''" and title = "''Intro''" and transcript = "''[0s] Hello world.''"
       and description = "''A test video.''" and md = demo_video_meta]
    demo_ready ok split
  have c1: "filter (\<lambda>d. source (doc_metadata d) = Title)
        (drop (length (stored_documents demo_tbl))
           (stored_documents
              (fst (processVideoContent demo_env demo_ready_db demo_tbl ''v1'' ''UC1'' ''Intro''
                      ''[0s] Hello world.'' ''A test video.'' demo_video_meta))))
     = [\<lparr>pageContent = ''Intro'',
         doc_metadata = chunk_metadata ''v1'' ''UC1'' ''Intro'' demo_video_meta Title\<rparr>]"
    by simp
  from title_chunks_are_the_splitter_pieces
    [where e = demo_env and db = demo_db and tbl = demo_tbl and vid = "''v1''"
       and cid = "''UC1''" and title = "''Intro''" and transcript = "''[0s] Hello world.''"
       and description = "''A test video.''" and md = demo_video_meta]
    n
  have c2: "filter (\<lambda>d. source (doc_metadata d) = Title)
        (drop (length (stored_documents demo_tbl))
           (stored_documents
              (fst (processVideoContent demo_env demo_db demo_tbl ''v1'' ''UC1'' ''Intro''
                      ''[0s] Hello world.'' ''A test video.'' demo_video_meta))))
     = []"
    by simp
  from split c1 c2 show ?thesis by blast
qed

text \<open>
  C7 as stated fails: a title of 1001 characters is longer than the chunk size, is cut,
  and is stored as two title chunks; the empty title is stored as none.
\<close>

theorem long_title_two_chunks_counterexample:
  "length
     (filter (\<lambda>d. source (doc_metadata d) = Title)
        (stored_documents
           (fst (processVideoContent demo_env demo_ready_db demo_tbl ''v1'' ''UC1''
                   (replicate 1001 (CHR ''a'')) [] [] demo_video_meta)))) = 2
   \<and> length
     (filter (\<lambda>d. source (doc_metadata d) = Title)
        (stored_documents
           (fst (processVideoContent demo_env demo_ready_db demo_tbl ''v1'' ''UC1''
                   [] [] [] demo_video_meta)))) = 0"
proof -
  have split: "splitText demo_env (replicate 1001 (CHR ''a'')) = [replicate 1000 (CHR ''a''), ''a'']"
    by (simp add: demo_env_def hard_cut_1001)
  have empty: "splitText demo_env [] = []"
    by (simp add: demo_env_def)
  have stored: "\<And>title. stored_documents
           (fst (processVideoContent demo_env demo_ready_db demo_tbl ''v1'' ''UC1''
                   title [] [] demo_video_meta))
      = stored_documents demo_tbl
        @ video_documents demo_env ''v1'' ''UC1'' title [] [] demo_video_meta"
    using processVideoContent_accepted[OF demo_ready demo_accepts] by blast
  have none: "stored_documents demo_tbl = []"
    by (simp add: stored_documents_def demo_tbl_def)
  show ?thesis
    by (simp only: stored none)
       (simp add: video_documents_def createDocuments_def split empty chunk_metadata_def)
qed

section \<open>Properties of the normalizer: comments\<close>

text \<open>
  C8. Every comment with non-empty content is rendered as \<open>author: content\<close> and that
  string is what the splitter cuts; a comment with empty content is skipped. What a call
  has stored is always the documents of the first so many comments with non-empty
  content, in order, and on an initialised, accepting store those of all of them.
\<close>

theorem comments_rendered_and_empty_skipped:
  "(\<exists>n. stored_documents (fst (processComments e db tbl vid cid title comments md))
          = stored_documents tbl
            @ concat (take n (map (comment_documents e vid cid title md)
                                (filter (\<lambda>c. c_content c \<noteq> []) comments))))
   \<and> (vectorStore db \<noteq> None \<and> (\<forall>docs. add_error e docs = None)
        \<longrightarrow> snd (processComments e db tbl vid cid title comments md) = None
            \<and> stored_documents (fst (processComments e db tbl vid cid title comments md))
              = stored_documents tbl
                @ concat (map (comment_documents e vid cid title md)
                            (filter (\<lambda>c. c_content c \<noteq> []) comments)))
   \<and> comment_documents e vid cid title md c
       = map (\<lambda>piece. \<lparr>pageContent = piece, doc_metadata = comment_metadata vid cid title md c\<rparr>)
           (splitText e (c_author c @ '': '' @ c_content c))"
proof (intro conjI impI)
  show "\<exists>n. stored_documents (fst (processComments e db tbl vid cid title comments md))
          = stored_documents tbl
            @ concat (take n (map (comment_documents e vid cid title md)
                                (filter (\<lambda>c. c_content c \<noteq> []) comments)))"
    using comments_loop_prefix by (simp add: processComments_loop)
next
  assume "vectorStore db \<noteq> None \<and> (\<forall>docs. add_error e docs = None)"
  then have r: "vectorStore db \<noteq> None" and a: "\<forall>docs. add_error e docs = None" by simp_all
  from comments_loop_accepted[OF r a]
  show "snd (processComments e db tbl vid cid title comments md) = None"
    and "stored_documents (fst (processComments e db tbl vid cid title comments md))
              = stored_documents tbl
                @ concat (map (comment_documents e vid cid title md)
                            (filter (\<lambda>c. c_content c \<noteq> []) comments))"
    by (simp_all add: processComments_loop)
next
  show "comment_documents e vid cid title md c
       = map (\<lambda>piece. \<lparr>pageContent = piece, doc_metadata = comment_metadata vid cid title md c\<rparr>)
           (splitText e (c_author c @ '': '' @ c_content c))"
    by (simp add: comment_documents_def createDocuments_def commentText_def)
qed

theorem comments_rendered_and_empty_skipped_witness:
  "vectorStore demo_ready_db \<noteq> None \<and> (\<forall>docs. add_error demo_env docs = None)
   \<and> snd (processComments demo_env demo_ready_db demo_tbl ''v1'' ''UC1'' ''Intro''
            [demo_empty_comment, demo_comment] demo_comment_meta) = None
   \<and> stored_documents (fst (processComments demo_env demo_ready_db demo_tbl ''v1'' ''UC1'' ''Intro''
            [demo_empty_comment, demo_comment] demo_comment_meta))
     = [\<lparr>pageContent = ''alice: nice'',
         doc_metadata = comment_metadata ''v1'' ''UC1'' ''Intro'' demo_comment_meta demo_comment\<rparr>]"
proof -
  have f: "filter (\<lambda>c. c_content c \<noteq> []) [demo_empty_comment, demo_comment] = [demo_comment]"
    by (simp add: demo_empty_comment_def demo_comment_def)
  have nil: "stored_documents demo_tbl = []"
    by (simp add: stored_documents_def demo_tbl_def)
  from comments_rendered_and_empty_skipped
    [where e = demo_env and db = demo_ready_db and tbl = demo_tbl and vid = "''v1''"
       and cid = "''UC1''" and title = "''Intro''"
       and comments = "[demo_empty_comment, demo_comment]" and md = demo_comment_meta]
    demo_ready demo_accepts
  have "snd (processComments demo_env demo_ready_db demo_tbl ''v1'' ''UC1'' ''Intro''
            [demo_empty_comment, demo_comment] demo_comment_meta) = None
     \<and> stored_documents (fst (processComments demo_env demo_ready_db demo_tbl ''v1'' ''UC1'' ''Intro''
            [demo_empty_comment, demo_comment] demo_comment_meta))
       = stored_documents demo_tbl
         @ concat (map (comment_documents demo_env ''v1'' ''UC1'' ''Intro'' demo_comment_meta)
             (filter (\<lambda>c. c_content c \<noteq> []) [demo_empty_comment, demo_comment]))"
    by blast
  then show ?thesis
    using demo_ready demo_accepts by (simp only: f nil) (simp add: demo_comment_documents)
qed

section \<open>Properties of the search\<close>

lemma match_documents_length: "length (match_documents e tbl q n) \<le> n"
  by (simp add: match_documents_def)

lemma match_documents_descending:
  "sorted_wrt (\<lambda>a b. similarity e q a \<ge> similarity e q b) (match_documents e tbl q n)"
proof -
  let ?xs = "sort_key (distance e q) (filter (\<lambda>r. similarity e q r > match_threshold e) (rows tbl))"
  have "sorted (map (distance e q) ?xs)" by (rule sorted_sort_key)
  then have "sorted_wrt (\<lambda>a b. distance e q a \<le> distance e q b) ?xs"
    by (simp add: sorted_map)
  then have "sorted_wrt (\<lambda>a b. similarity e q a \<ge> similarity e q b) ?xs"
    by (simp add: similarity_def)
  then show ?thesis
    unfolding match_documents_def by (rule sorted_wrt_take)
qed

lemma match_documents_subset: "set (match_documents e tbl q n) \<subseteq> set (rows tbl)"
proof -
  have "set (match_documents e tbl q n)
      \<subseteq> set (sort_key (distance e q) (filter (\<lambda>r. similarity e q r > match_threshold e) (rows tbl)))"
    unfolding match_documents_def by (rule set_take_subset)
  then show ?thesis by auto
qed

text \<open>
  C9. Whenever the store is initialised or can be initialised, and the query goes
  through, \<open>similaritySearch\<close> returns rows of the table, at most \<open>k\<close> of them
  (5 when \<open>k\<close> is not given), in descending order of similarity, and the store is
  initialised afterwards: a store that was not is initialised first.
\<close>

theorem search_at_most_k_descending_lazy_init:
  "(vectorStore db \<noteq> None \<or> fromExistingIndex e = Inr ()) \<and> query_error e q = None
     \<longrightarrow> (\<exists>db' rs. similaritySearch e db tbl q k = (db', Inr (map row_document rs))
            \<and> vectorStore db' \<noteq> None
            \<and> (vectorStore db = None
                 \<longrightarrow> db' = db\<lparr>vectorStore := Some \<lparr>vs_tableName = tableName db,
                                                     vs_queryName = ''match_documents''\<rparr>\<rparr>)
            \<and> length rs \<le> (case k of None \<Rightarrow> 5 | Some n \<Rightarrow> n)
            \<and> sorted_wrt (\<lambda>a b. similarity e q a \<ge> similarity e q b) rs
            \<and> set rs \<subseteq> set (rows tbl))"
proof
  assume a: "(vectorStore db \<noteq> None \<or> fromExistingIndex e = Inr ()) \<and> query_error e q = None"
  define n where "n = (case k of None \<Rightarrow> 5 | Some n \<Rightarrow> n)"
  define rs where "rs = match_documents e tbl q n"
  define db' where "db' = (if vectorStore db = None
              then db\<lparr>vectorStore := Some \<lparr>vs_tableName = tableName db,
                                           vs_queryName = ''match_documents''\<rparr>\<rparr>
              else db)"
  from a have run: "similaritySearch e db tbl q k = (db', Inr (map row_document rs))"
    by (auto simp: similaritySearch_def vdb_initialize_def db'_def rs_def n_def)
  have init: "vectorStore db' \<noteq> None" by (simp add: db'_def)
  have lazy: "vectorStore db = None
      \<longrightarrow> db' = db\<lparr>vectorStore := Some \<lparr>vs_tableName = tableName db,
                                          vs_queryName = ''match_documents''\<rparr>\<rparr>"
    by (simp add: db'_def)
  have len: "length rs \<le> n" unfolding rs_def by (rule match_documents_length)
  have desc: "sorted_wrt (\<lambda>a b. similarity e q a \<ge> similarity e q b) rs"
    unfolding rs_def by (rule match_documents_descending)
  have sub: "set rs \<subseteq> set (rows tbl)" unfolding rs_def by (rule match_documents_subset)
  from run init lazy len desc sub
  show "\<exists>db' rs. similaritySearch e db tbl q k = (db', Inr (map row_document rs))
            \<and> vectorStore db' \<noteq> None
            \<and> (vectorStore db = None
                 \<longrightarrow> db' = db\<lparr>vectorStore := Some \<lparr>vs_tableName = tableName db,
                                                     vs_queryName = ''match_documents''\<rparr>\<rparr>)
            \<and> length rs \<le> (case k of None \<Rightarrow> 5 | Some n \<Rightarrow> n)
            \<and> sorted_wrt (\<lambda>a b. similarity e q a \<ge> similarity e q b) rs
            \<and> set rs \<subseteq> set (rows tbl)"
    unfolding n_def by - (rule exI[of _ db'], rule exI[of _ rs], simp)
qed

lemma demo_search:
  "similaritySearch demo_env demo_db demo_tbl3 ''q'' (Some 2)
     = (demo_ready_db,
        Inr [\<lparr>pageContent = ''q'', doc_metadata = demo_metadata ''v2'' Title\<rparr>,
             \<lparr>pageContent = ''a'', doc_metadata = demo_metadata ''v1'' Transcript\<rparr>])"
  by (simp add: similaritySearch_def vdb_initialize_def demo_env_def demo_db_def demo_ready_db_def
      match_documents_def similarity_def demo_tbl3_def row_document_def numeral_2_eq_2)

theorem search_at_most_k_descending_lazy_init_witness:
  "vectorStore demo_db = None \<and> fromExistingIndex demo_env = Inr ()
   \<and> query_error demo_env ''q'' = None
   \<and> similaritySearch demo_env demo_db demo_tbl3 ''q'' (Some 2)
       = (demo_ready_db,
          Inr [\<lparr>pageContent = ''q'', doc_metadata = demo_metadata ''v2'' Title\<rparr>,
               \<lparr>pageContent = ''a'', doc_metadata = demo_metadata ''v1'' Transcript\<rparr>])
   \<and> (\<exists>db' rs. similaritySearch demo_env demo_db demo_tbl3 ''q'' (Some 2)
                  = (db', Inr (map row_document rs))
          \<and> vectorStore db' \<noteq> None
          \<and> length rs \<le> 2
          \<and> sorted_wrt (\<lambda>a b. similarity demo_env ''q'' a \<ge> similarity demo_env ''q'' b) rs
          \<and> set rs \<subseteq> set (rows demo_tbl3))"
proof -
  have h1: "vectorStore demo_db = None" by (simp add: demo_db_def)
  have h2: "fromExistingIndex demo_env = Inr ()" by (simp add: demo_env_def)
  have h3: "query_error demo_env ''q'' = None" by (simp add: demo_env_def)
  from search_at_most_k_descending_lazy_init
    [where e = demo_env and db = demo_db and tbl = demo_tbl3 and q = "''q''" and k = "Some 2"]
    h2 h3
  have "\<exists>db' rs. similaritySearch demo_env demo_db demo_tbl3 ''q'' (Some 2)
                  = (db', Inr (map row_document rs))
          \<and> vectorStore db' \<noteq> None
          \<and> length rs \<le> 2
          \<and> sorted_wrt (\<lambda>a b. similarity demo_env ''q'' a \<ge> similarity demo_env ''q'' b) rs
          \<and> set rs \<subseteq> set (rows demo_tbl3)"
    by auto
  with h1 h2 h3 demo_search show ?thesis by blast
qed

section \<open>Properties of the numbers in a timestamp\<close>

lemma digit_of_le: "(case digit_of c of Some d \<Rightarrow> d | None \<Rightarrow> 0) \<le> 9"
  by (simp add: digit_of_def)

lemma decimal_snoc:
  "decimal (ds @ [c]) = 10 * decimal ds + (case digit_of c of Some d \<Rightarrow> d | None \<Rightarrow> 0)"
  by (simp add: decimal_def)

lemma decimal_bound: "decimal ds < 10 ^ length ds"
proof (induction ds rule: rev_induct)
  case Nil
  show ?case by (simp add: decimal_def)
next
  case (snoc c ds)
  have "decimal (ds @ [c]) \<le> 10 * decimal ds + 9"
    using digit_of_le[of c] by (simp add: decimal_snoc)
  also have "\<dots> < 10 * 10 ^ length ds" using snoc.IH by simp
  finally show ?case by simp
qed

text \<open>The value parsed is the whole seconds plus a fraction below one.\<close>

lemma parseFloat_whole:
  "\<exists>f. parseFloat s = of_nat (decimal (takeWhile is_digit s)) + f \<and> 0 \<le> f \<and> f < 1"
proof -
  define f where "f = parseFloat s - of_nat (decimal (takeWhile is_digit s))"
  have frac: "\<And>fs. (of_nat (decimal fs) :: rat) / 10 ^ length fs < 1"
  proof -
    fix fs
    have "(of_nat (decimal fs) :: rat) < of_nat (10 ^ length fs)"
      using decimal_bound[of fs] by (simp only: of_nat_less_iff)
    then show "(of_nat (decimal fs) :: rat) / 10 ^ length fs < 1" by simp
  qed
  have "0 \<le> f \<and> f < 1"
    unfolding f_def parseFloat_def Let_def
    using frac by (auto split: list.splits)
  moreover have "parseFloat s = of_nat (decimal (takeWhile is_digit s)) + f"
    by (simp add: f_def)
  ultimately show ?thesis by blast
qed

lemma floor_whole:
  fixes f :: rat
  assumes "0 \<le> f" "f < 1"
  shows "\<lfloor>of_nat n + f\<rfloor> = int n"
  using assms by (intro floor_unique) simp_all

lemma floor_minutes:
  fixes f :: rat
  assumes "0 \<le> f" "f < 1"
  shows "\<lfloor>(of_nat n + f) / 60\<rfloor> = int (n div 60)"
proof (rule floor_unique)
  have n: "(of_nat n :: rat) = 60 * of_nat (n div 60) + of_nat (n mod 60)"
    by (metis mult_div_mod_eq of_nat_add of_nat_mult of_nat_numeral)
  have r: "(of_nat (n mod 60) :: rat) \<le> 59"
  proof -
    have "n mod 60 \<le> 59" by simp
    then have "(of_nat (n mod 60) :: rat) \<le> of_nat 59" by (simp only: of_nat_le_iff)
    then show ?thesis by simp
  qed
  have r0: "(0::rat) \<le> of_nat (n mod 60)" by simp
  show "of_int (int (n div 60)) \<le> (of_nat n + f) / 60"
    using assms r0 by (simp add: n field_simps)
  show "(of_nat n + f) / 60 < of_int (int (n div 60)) + 1"
    using assms r by (simp add: n field_simps)
qed

lemma floor_remaining:
  fixes f :: rat
  assumes "0 \<le> f" "f < 1"
  shows "\<lfloor>js_rem (of_nat n + f) 60\<rfloor> = int (n mod 60)"
proof -
  have n: "(of_nat n :: rat) = 60 * of_nat (n div 60) + of_nat (n mod 60)"
    by (metis mult_div_mod_eq of_nat_add of_nat_mult of_nat_numeral)
  have "js_rem (of_nat n + f) 60 = of_nat n + f - 60 * of_nat (n div 60)"
    by (simp add: js_rem_def floor_minutes[OF assms])
  also have "\<dots> = of_nat (n mod 60) + f" using n by simp
  finally show ?thesis by (simp add: floor_whole[OF assms])
qed

lemma toString_nat: "toString (int n) = show_nat n"
  by (simp add: toString_def)

section \<open>Properties of the chat route: timestamps\<close>

lemma match_leading_marker:
  assumes "ds \<noteq> []" "list_all is_digit ds"
  shows "regex_match (CHR ''['' # ds @ ''s]'' @ rest) = Some ds"
proof -
  have s: "\<not> is_digit (CHR ''s'')" by (simp add: is_digit_def digit_of_def)
  from assms(2) have all: "\<forall>c\<in>set ds. is_digit c" by (simp add: list_all_iff)
  have t: "takeWhile is_digit (ds @ CHR ''s'' # CHR '']'' # rest) = ds"
    using all s by (simp add: takeWhile_append2)
  have d: "dropWhile is_digit (ds @ CHR ''s'' # CHR '']'' # rest) = CHR ''s'' # CHR '']'' # rest"
    using all s by (simp add: dropWhile_append2)
  have "match_here (CHR ''['' # ds @ ''s]'' @ rest) = Some ds"
    using assms(1) by (simp add: match_here_def t d)
  then show ?thesis by simp
qed

text \<open>
  What the route does with a timestamp field that carries a marker. A citation is
  rewritten only when its \<open>videoId\<close> is non-empty and the metadata store knows the
  video. Then, if the field contains a marker \<open>[<seconds>s]\<close> (the leftmost one
  counts; a marker that leads the field is found), with \<open>n\<close> whole seconds, the
  timestamp becomes \<open>M:SS\<close>, that is \<open>n div 60\<close>, a colon and \<open>n mod 60\<close> padded to
  two digits, and the URL becomes the store's URL of the video, with \<open>&t=n\<close> appended
  unless that URL already contains \<open>&t=\<close>. The bounds on the marker are those within
  which the doubles of the source compute these floors exactly.
\<close>

lemma timestamp_field_converted:
  "(src_videoId src \<noteq> [] \<and> lookupVideo (src_videoId src) = Some details
      \<and> src_timestamp src = Some ts \<and> regex_match ts = Some m
      \<and> decimal (takeWhile is_digit m) = n \<and> n < 2 ^ 31 \<and> length (dropWhile is_digit m) \<le> 7
    \<longrightarrow> src_timestamp (enhance_source lookupVideo src)
          = Some (show_nat (n div 60) @ '':'' @ padStart (show_nat (n mod 60)) 2 (CHR ''0''))
        \<and> src_url (enhance_source lookupVideo src)
          = (if str_includes (v_url details) ''&t='' then v_url details
             else v_url details @ ''&t='' @ show_nat n))
   \<and> (ds \<noteq> [] \<and> list_all is_digit ds
        \<longrightarrow> regex_match (CHR ''['' # ds @ ''s]'' @ rest) = Some ds)"
proof (intro conjI impI)
  assume a: "src_videoId src \<noteq> [] \<and> lookupVideo (src_videoId src) = Some details
      \<and> src_timestamp src = Some ts \<and> regex_match ts = Some m
      \<and> decimal (takeWhile is_digit m) = n \<and> n < 2 ^ 31 \<and> length (dropWhile is_digit m) \<le> 7"
  then have ts: "ts \<noteq> []" by auto
  obtain f where p: "parseFloat m = of_nat n + f" and f: "0 \<le> f" "f < 1"
    using parseFloat_whole[of m] a by auto
  have mins: "toString \<lfloor>parseFloat m / 60\<rfloor> = show_nat (n div 60)"
    by (simp add: p floor_minutes[OF f] toString_nat)
  have secs: "toString \<lfloor>js_rem (parseFloat m) 60\<rfloor> = show_nat (n mod 60)"
    by (simp add: p floor_remaining[OF f] toString_nat)
  have whole: "toString \<lfloor>parseFloat m\<rfloor> = show_nat n"
    by (simp add: p floor_whole[OF f] toString_nat)
  from a ts show "src_timestamp (enhance_source lookupVideo src)
          = Some (show_nat (n div 60) @ '':'' @ padStart (show_nat (n mod 60)) 2 (CHR ''0''))"
    by (simp add: enhance_source_def Let_def mins secs)
  from a ts show "src_url (enhance_source lookupVideo src)
          = (if str_includes (v_url details) ''&t='' then v_url details
             else v_url details @ ''&t='' @ show_nat n)"
    by (simp add: enhance_source_def Let_def mins secs whole)
next
  assume "ds \<noteq> [] \<and> list_all is_digit ds"
  then show "regex_match (CHR ''['' # ds @ ''s]'' @ rest) = Some ds"
    using match_leading_marker by blast
qed

lemma demo_marker: "regex_match ''[125s] hello'' = Some ''125''"
  by (simp add: match_here_def is_digit_def digit_of_def)

lemma demo_mss: "show_nat (125 div 60) @ '':'' @ padStart (show_nat (125 mod 60)) 2 (CHR ''0'') = ''2:05''"
  by code_simp

lemma demo_whole: "show_nat 125 = ''125''"
  by code_simp

lemma timestamp_field_converted_example:
  "src_videoId (demo_source ''v1'') \<noteq> []
   \<and> demo_videos (src_videoId (demo_source ''v1'')) = Some demo_video
   \<and> src_timestamp (demo_source ''v1'') = Some ''[125s] hello''
   \<and> regex_match ''[125s] hello'' = Some ''125''
   \<and> decimal (takeWhile is_digit ''125'') = 125
   \<and> src_timestamp (enhance_source demo_videos (demo_source ''v1'')) = Some ''2:05''
   \<and> src_url (enhance_source demo_videos (demo_source ''v1''))
       = ''https://www.youtube.com/watch?v=v1&t=125''
   \<and> list_all is_digit ''125''
   \<and> regex_match (CHR ''['' # ''125'' @ ''s]'' @ '' hello'') = Some ''125''"
proof -
  have h1: "src_videoId (demo_source ''v1'') \<noteq> []" by (simp add: demo_source_def)
  have h2: "demo_videos (src_videoId (demo_source ''v1'')) = Some demo_video"
    by (simp add: demo_source_def demo_videos_def)
  have h3: "src_timestamp (demo_source ''v1'') = Some ''[125s] hello''"
    by (simp add: demo_source_def)
  have h5: "decimal (takeWhile is_digit ''125'') = 125"
    by (simp add: is_digit_def digit_of_def decimal_def)
  have h6: "(125::nat) < 2 ^ 31" by simp
  have h7: "length (dropWhile is_digit ''125'') \<le> 7"
    by (simp add: is_digit_def digit_of_def)
  have h8: "list_all is_digit ''125''" by (simp add: is_digit_def digit_of_def)
  have h9: "''125'' \<noteq> []" by simp
  have u: "\<not> str_includes (v_url demo_video) ''&t=''" by (simp add: demo_video_def)
  note inst = timestamp_field_converted
    [where src = "demo_source ''v1''" and lookupVideo = demo_videos and details = demo_video
       and ts = "''[125s] hello''" and m = "''125''" and n = 125 and ds = "''125''"
       and rest = "'' hello''"]
  from inst h1 h2 h3 demo_marker h5 h6 h7
  have c1: "src_timestamp (enhance_source demo_videos (demo_source ''v1'')) = Some ''2:05''"
    by (simp only: demo_mss) simp
  from inst h1 h2 h3 demo_marker h5 h6 h7 u
  have c2: "src_url (enhance_source demo_videos (demo_source ''v1''))
       = ''https://www.youtube.com/watch?v=v1&t=125''"
    by (simp only: demo_whole) (simp add: demo_video_def)
  from inst h8 h9
  have c3: "regex_match (CHR ''['' # ''125'' @ ''s]'' @ '' hello'') = Some ''125''"
    by blast
  from h1 h2 h3 demo_marker h5 c1 c2 h8 c3 show ?thesis by blast
qed

text \<open>
  Nothing writes the \<open>timestamp\<close> field: the metadata of every chunk the normalizer
  creates has none, and so has its citation.
\<close>

lemma stored_chunks_have_no_timestamp:
  "timestamp (chunk_metadata vid cid title md kind) = None
   \<and> timestamp (comment_metadata vid cid title cmd c) = None"
  by (simp add: chunk_metadata_def comment_metadata_def)

lemma video_documents_no_timestamp:
  "d \<in> set (video_documents e vid cid title transcript description md)
     \<Longrightarrow> src_timestamp (to_source d) = None"
  by (auto simp: video_documents_def createDocuments_def to_source_def chunk_metadata_def
      split: if_splits)

text \<open>
  A citation without a timestamp field leaves the loop of the chat route without one,
  and with no \<open>&t=\<close> appended: its URL is the metadata store's URL of the video when
  the store knows the video, and its own otherwise.
\<close>

lemma no_timestamp_field_no_conversion:
  "src_timestamp src = None \<Longrightarrow>
   src_timestamp (enhance_source lookupVideo src) = None
   \<and> src_url (enhance_source lookupVideo src)
       = (if src_videoId src = [] then src_url src
          else (case lookupVideo (src_videoId src) of
                  None \<Rightarrow> src_url src
                | Some videoDetails \<Rightarrow> v_url videoDetails))"
  by (simp add: enhance_source_def split: option.splits)

text \<open>A citation of a video the metadata store does not know is left as it is.\<close>

lemma unknown_video_left_unchanged:
  "lookupVideo (src_videoId src) = None \<Longrightarrow> enhance_source lookupVideo src = src"
  by (simp add: enhance_source_def)

lemma demo_transcript_ingested:
  "stored_documents
     (fst (processVideoContent demo_env demo_ready_db demo_tbl ''v1'' ''UC1'' ''Intro''
             ''[125s] hello'' [] demo_video_meta))
   = [demo_transcript_doc,
      \<lparr>pageContent = ''Intro'',
       doc_metadata = chunk_metadata ''v1'' ''UC1'' ''Intro'' demo_video_meta Title\<rparr>]"
proof -
  have "stored_documents
     (fst (processVideoContent demo_env demo_ready_db demo_tbl ''v1'' ''UC1'' ''Intro''
             ''[125s] hello'' [] demo_video_meta))
     = stored_documents demo_tbl
       @ video_documents demo_env ''v1'' ''UC1'' ''Intro'' ''[125s] hello'' [] demo_video_meta"
    using processVideoContent_accepted[OF demo_ready demo_accepts] by blast
  moreover have "stored_documents demo_tbl = []"
    by (simp add: stored_documents_def demo_tbl_def)
  ultimately show ?thesis
    by (simp add: video_documents_def createDocuments_def demo_split_short demo_transcript_doc_def)
qed

lemma demo_transcript_retrieved:
  "snd (processMessage demo_transcript_env demo_ai ''q'')
     = Inr \<lparr>response = ''ok'', sources = [to_source demo_transcript_doc]\<rparr>"
  by (simp add: processMessage_def demo_transcript_env_def demo_env_def demo_ai_def demo_db_def
      new_ConversationalAI_def initialize_def vdb_initialize_def extract_sources_def
      uniqueSources_def new_Map_def Map_values_def)

text \<open>
  C5, the failing input. The transcript \<open>[125s] hello\<close> of the video \<open>v1\<close> is
  ingested; its chunk, whose passage begins with the marker \<open>[125s]\<close>, is retrieved
  and cited; the metadata store knows the video. The citation that leaves the chat
  route has no timestamp, where the claim says \<open>2:05\<close>, and its URL has no \<open>&t=125\<close>:
  the route formats the citation's \<open>timestamp\<close> field only, and the chunk was stored
  without one.
\<close>

theorem transcript_marker_never_reaches_citation:
  "stored_documents
     (fst (processVideoContent demo_env demo_ready_db demo_tbl ''v1'' ''UC1'' ''Intro''
             ''[125s] hello'' [] demo_video_meta))
     = [demo_transcript_doc,
        \<lparr>pageContent = ''Intro'',
         doc_metadata = chunk_metadata ''v1'' ''UC1'' ''Intro'' demo_video_meta Title\<rparr>]
   \<and> pageContent demo_transcript_doc = ''[125s] hello''
   \<and> snd (processMessage demo_transcript_env demo_ai ''q'')
       = Inr \<lparr>response = ''ok'', sources = [to_source demo_transcript_doc]\<rparr>
   \<and> demo_videos ''v1'' = Some demo_video
   \<and> enhance_sources demo_videos [to_source demo_transcript_doc]
       = [\<lparr>src_videoId = ''v1'', src_videoTitle = ''Intro'', src_channelName = ''Chan'',
           src_url = ''https://www.youtube.com/watch?v=v1'', src_source = Transcript,
           src_timestamp = None\<rparr>]"
proof -
  have known: "demo_videos ''v1'' = Some demo_video" by (simp add: demo_videos_def)
  have out: "enhance_sources demo_videos [to_source demo_transcript_doc]
       = [\<lparr>src_videoId = ''v1'', src_videoTitle = ''Intro'', src_channelName = ''Chan'',
           src_url = ''https://www.youtube.com/watch?v=v1'', src_source = Transcript,
           src_timestamp = None\<rparr>]"
    by (simp add: enhance_sources_def enhance_source_def demo_videos_def to_source_def
        demo_transcript_doc_def chunk_metadata_def demo_video_meta_def demo_video_def)
  have passage: "pageContent demo_transcript_doc = ''[125s] hello''"
    by (simp add: demo_transcript_doc_def)
  from demo_transcript_ingested passage demo_transcript_retrieved known out
  show ?thesis by blast
qed

section \<open>Properties of channel ingestion\<close>

text \<open>
  The scraper isolates a failing video: a batch returns every video whose page could be
  read, in order, and logs one line for each of the others.
\<close>

lemma processVideoBatch_results:
  "fst (processVideoBatch w us)
     = List.map_filter (\<lambda>u. case scrapeVideo w u of Inr v \<Rightarrow> Some v | Inl err \<Rightarrow> None) us"
  by (induction us) (auto simp: List.map_filter_simps split: sum.splits)

lemma processVideoBatch_logged:
  "snd (processVideoBatch w us)
     = map (\<lambda>u. ''Error processing video '' @ u @ '':'') (filter (\<lambda>u. isl (scrapeVideo w u)) us)"
  by (induction us) (auto split: sum.splits)

lemma processVideoBatch_append:
  "processVideoBatch w (us @ vs)
     = (fst (processVideoBatch w us) @ fst (processVideoBatch w vs),
        snd (processVideoBatch w us) @ snd (processVideoBatch w vs))"
  by (induction us) (auto split: sum.splits)

text \<open>Cutting the links into batches of five changes nothing in what is returned.\<close>

lemma batch_loop_eq:
  "batch_loop w links i acc
     = (fst acc @ fst (processVideoBatch w (drop i links)),
        snd acc @ snd (processVideoBatch w (drop i links)))"
proof (induction w links i acc rule: batch_loop.induct)
  case (1 w videoLinks i acc)
  show ?case
  proof (cases "i < length videoLinks")
    case True
    have split: "drop i videoLinks
        = take batchSize (drop i videoLinks) @ drop (i + batchSize) videoLinks"
      by (metis add.commute append_take_drop_id drop_drop)
    have "processVideoBatch w (drop i videoLinks)
        = (fst (processVideoBatch w (take batchSize (drop i videoLinks)))
             @ fst (processVideoBatch w (drop (i + batchSize) videoLinks)),
           snd (processVideoBatch w (take batchSize (drop i videoLinks)))
             @ snd (processVideoBatch w (drop (i + batchSize) videoLinks)))"
      by (subst split) (rule processVideoBatch_append)
    then show ?thesis
      using True "1.IH"[OF True refl refl]
      by (subst batch_loop.simps) (simp add: Let_def)
  next
    case False
    then show ?thesis by (subst batch_loop.simps) simp
  qed
qed

lemma batches_bounded: "length (take batchSize (drop i links)) \<le> 5"
  by (simp add: batchSize_def)

lemma scrapeChannelWithVideos_isolates:
  assumes "scrapeChannel w u = Inr channel" "scrapeVideoLinks w u n = Inr links"
  shows "scrapeChannelWithVideos w u n
     = Inr (channel,
            List.map_filter (\<lambda>u. case scrapeVideo w u of Inr v \<Rightarrow> Some v | Inl err \<Rightarrow> None) links,
            map (\<lambda>u. ''Error processing video '' @ u @ '':'')
              (filter (\<lambda>u. isl (scrapeVideo w u)) links))"
  using assms
  by (simp add: scrapeChannelWithVideos_def batch_loop_eq processVideoBatch_results
      processVideoBatch_logged)

lemma show_nat_digit: "n < 10 \<Longrightarrow> show_nat n = [''0123456789'' ! n]"
  by (subst show_nat.simps) simp

lemma demo_scrape:
  "scrapeChannelWithVideos demo_web ''https://www.youtube.com/channel/UC1'' 20
     = Inr (demo_channel, [demo_info ''v1'', demo_info ''v2''], [])"
  by (simp add: scrapeChannelWithVideos_def batch_loop_eq demo_web_def)

lemma demo_scrape_404:
  "scrapeChannelWithVideos demo_web_404 ''https://www.youtube.com/channel/UC1'' 20
     = Inr (demo_channel, [demo_info ''v2''],
            [''Error processing video https://www.youtube.com/watch?v=v1:''])"
  by (simp add: scrapeChannelWithVideos_def batch_loop_eq demo_web_404_def demo_web_def)

lemma demo_web_d1:
  "d1_error demo_web k = (if k = ''v1'' then Some (Error ''D1_ERROR'') else None)"
  by (simp add: demo_web_def)

text \<open>
  C6, the failing input. Both videos of the channel are scraped; D1 rejects the
  statements for the first one. The request is answered with the one status 500, the
  second video is never stored or ingested, and nothing names the video that failed.
\<close>

theorem ingestion_failure_aborts_siblings:
  "snd (POST_process_channel demo_web demo_env demo_db demo_stores
          ''https://www.youtube.com/channel/UC1'' ''UC1'')
     = \<lparr>status = 500, body = ErrorBody ''Failed to process channel''\<rparr>
   \<and> videos (st_d1 (fst (POST_process_channel demo_web demo_env demo_db demo_stores
          ''https://www.youtube.com/channel/UC1'' ''UC1''))) = []
   \<and> getVideo (st_d1 (fst (POST_process_channel demo_web demo_env demo_db demo_stores
          ''https://www.youtube.com/channel/UC1'' ''UC1''))) ''v2'' = None
   \<and> transcripts (st_d1 (fst (POST_process_channel demo_web demo_env demo_db demo_stores
          ''https://www.youtube.com/channel/UC1'' ''UC1''))) = []"
  by (simp add: POST_process_channel_def demo_scrape demo_web_d1 demo_stores_def getChannel_def
      storeChannel_def ingest_video_def storeVideo_def video_row_def demo_info_def
      channel_row_def demo_channel_def getVideo_def)

text \<open>
  The sibling path: when instead the page of the first video cannot be read, the
  scraper drops that video and the second one is stored and ingested.
\<close>

lemma demo_web_404_accepts: "d1_error demo_web_404 k = None"
  by (simp add: demo_web_404_def)

lemma scraping_failure_isolated_example:
  "snd (POST_process_channel demo_web_404 demo_env demo_db demo_stores
          ''https://www.youtube.com/channel/UC1'' ''UC1'')
     = \<lparr>status = 200, body = ChannelBody ''UC1'' ''Chan'' 1 ''Channel processed successfully''\<rparr>
   \<and> map video_id (videos (st_d1 (fst (POST_process_channel demo_web_404 demo_env demo_db demo_stores
          ''https://www.youtube.com/channel/UC1'' ''UC1'')))) = [''v2'']"
  by (simp add: POST_process_channel_def demo_scrape_404 demo_web_404_accepts demo_stores_def
      getChannel_def storeChannel_def ingest_video_def storeVideo_def storeTranscript_def
      video_row_def demo_info_def channel_row_def demo_channel_def getVideo_def
      getTranscript_def fetchTranscript_def processVideoContent_null demo_db_def)

end
